theory Spec2Isabelle
  imports Main
begin

section \<open>JavaScript values used by the relay\<close>

text \<open>
  Strings are lists of 8-bit code units (\<^typ>\<open>string\<close>); every identifier the program
  compares against (model names, roles, header names) is ASCII. Numbers that the program
  only counts, compares, adds and subtracts (message counts, token counts, millisecond
  timestamps) are \<^typ>\<open>int\<close>.
\<close>

text \<open>\<^verbatim>\<open>String.prototype.startsWith\<close>.\<close>

definition startsWith :: "string \<Rightarrow> string \<Rightarrow> bool" where
  "startsWith s p = (take (length p) s = p)"

text \<open>
  \<^verbatim>\<open>String.prototype.toLowerCase\<close> on 8-bit code units: \<open>A\<close>..\<open>Z\<close> and the
  Latin-1 capitals (192..222 except the multiplication sign 215) move up by 32.
\<close>

definition lowerChar :: "char \<Rightarrow> char" where
  "lowerChar c =
     (let n = (of_char c :: nat)
      in if (65 \<le> n \<and> n \<le> 90) \<or> (192 \<le> n \<and> n \<le> 222 \<and> n \<noteq> 215)
         then char_of (n + 32) else c)"

definition toLowerCase :: "string \<Rightarrow> string" where
  "toLowerCase s = map lowerChar s"

text \<open>
  \<^verbatim>\<open>String.prototype.trim\<close> removes white space and line terminators at both ends; on
  8-bit code units these are TAB, LF, VT, FF, CR, SPACE and NBSP.
\<close>

definition isWhiteSpace :: "char \<Rightarrow> bool" where
  "isWhiteSpace c = ((of_char c :: nat) \<in> {9, 10, 11, 12, 13, 32, 160})"

definition trim :: "string \<Rightarrow> string" where
  "trim s = rev (dropWhile isWhiteSpace (rev (dropWhile isWhiteSpace s)))"

text \<open>\<^verbatim>\<open>String(n)\<close> for an integer \<open>n\<close>: its decimal numeral.\<close>

fun showNat :: "nat \<Rightarrow> string" where
  "showNat n =
     (if n < 10 then [char_of (48 + n)]
      else showNat (n div 10) @ [char_of (48 + n mod 10)])"

definition showInt :: "int \<Rightarrow> string" where
  "showInt i = (if i < 0 then CHR ''-'' # showNat (nat (- i)) else showNat (nat i))"

text \<open>
  A thrown JavaScript value: an \<^verbatim>\<open>Error\<close> object with its message, or any other value,
  kept as what \<^verbatim>\<open>String(value)\<close> gives.
\<close>

datatype exn = Error string | Thrown string

text \<open>\<^verbatim>\<open>error instanceof Error ? error : new Error(String(error))\<close>\<close>

fun asError :: "exn \<Rightarrow> exn" where
  "asError (Error m) = Error m"
| "asError (Thrown v) = Error v"

section \<open>Subscription tiers (\<^verbatim>\<open>subscription-tiers.ts\<close>)\<close>

datatype SubscriptionTier = Free | Pro | Enterprise

datatype AIProvider = OpenAI | Anthropic | Google

record TierConfig =
  name :: string
  price :: int
  messagesPerMonth :: int
  models :: "string list"
  features :: "string list"

fun TIERS :: "SubscriptionTier \<Rightarrow> TierConfig" where
  "TIERS Free = \<lparr>
     name = ''Free'', price = 0, messagesPerMonth = 50,
     models = [''gpt-3.5-turbo'', ''gemini-pro'', ''gemini-2.0-flash''],
     features = [''basic_chat'']\<rparr>"
| "TIERS Pro = \<lparr>
     name = ''Pro'', price = 10, messagesPerMonth = 1000,
     models = [''gpt-3.5-turbo'', ''gpt-4'', ''gpt-4o'',
               ''claude-3-sonnet-20240229'', ''claude-3-5-sonnet-20241022'',
               ''gemini-pro'', ''gemini-1.5-pro'', ''gemini-1.5-flash'', ''gemini-2.0-flash''],
     features = [''basic_chat'', ''chat_history'', ''export'', ''regenerate'', ''edit_message'']\<rparr>"
| "TIERS Enterprise = \<lparr>
     name = ''Enterprise'', price = 50, messagesPerMonth = - 1,
     models = [''gpt-3.5-turbo'', ''gpt-4'', ''gpt-4-turbo'', ''gpt-4o'',
               ''claude-3-haiku-20240307'', ''claude-3-sonnet-20240229'',
               ''claude-3-opus-20240229'', ''claude-3-5-sonnet-20241022'',
               ''gemini-pro'', ''gemini-1.5-pro'', ''gemini-1.5-flash'', ''gemini-2.0-flash''],
     features = [''basic_chat'', ''chat_history'', ''export'', ''regenerate'', ''edit_message'',
                 ''priority_support'', ''custom_models'', ''api_access'']\<rparr>"

definition canAccessModel :: "SubscriptionTier \<Rightarrow> string \<Rightarrow> bool" where
  "canAccessModel tier model = (model \<in> set (models (TIERS tier)))"

definition getMessageLimit :: "SubscriptionTier \<Rightarrow> int" where
  "getMessageLimit tier = messagesPerMonth (TIERS tier)"

definition isUnlimited :: "SubscriptionTier \<Rightarrow> bool" where
  "isUnlimited tier = (messagesPerMonth (TIERS tier) = - 1)"

text \<open>
  \<^verbatim>\<open>getModelProvider\<close> of the tier module: case-sensitive, no \<open>o1\<close>/\<open>o3\<close> family, and a
  default vendor for anything else. The relay does not call it.
\<close>

definition getModelProvider :: "string \<Rightarrow> AIProvider" where
  "getModelProvider model =
     (if startsWith model ''gpt'' then OpenAI
      else if startsWith model ''claude'' then Anthropic
      else if startsWith model ''gemini'' then Google
      else OpenAI)"

section \<open>Provider factory (\<^verbatim>\<open>ai/index.ts\<close>)\<close>

text \<open>
  \<^verbatim>\<open>getProviderFromModel\<close> returns the vendor or throws
  \<^verbatim>\<open>new Error(`Unknown model: ${model}`)\<close>.
\<close>

definition getProviderFromModel :: "string \<Rightarrow> exn + AIProvider" where
  "getProviderFromModel model =
     (let m = toLowerCase model
      in if startsWith m ''gpt'' \<or> startsWith m ''o1'' \<or> startsWith m ''o3'' then Inr OpenAI
         else if startsWith m ''claude'' then Inr Anthropic
         else if startsWith m ''gemini'' then Inr Google
         else Inl (Error (''Unknown model: '' @ model)))"

section \<open>Request validation (\<^verbatim>\<open>validation.ts\<close>)\<close>

text \<open>The members of \<^verbatim>\<open>aiModelSchema\<close>, in the order of the source.\<close>

definition aiModelSchema :: "string list" where
  "aiModelSchema =
     [''gpt-3.5-turbo'', ''gpt-4'', ''gpt-4-turbo'', ''gpt-4o'',
      ''claude-3-haiku-20240307'', ''claude-3-sonnet-20240229'', ''claude-3-opus-20240229'',
      ''claude-3-5-sonnet-20241022'',
      ''gemini-pro'', ''gemini-1.5-pro'', ''gemini-1.5-flash'']"

section \<open>Rate limiter (\<^verbatim>\<open>rate-limiter.ts\<close>)\<close>

definition IP_RATE_LIMIT :: int where
  "IP_RATE_LIMIT = 100"

definition IP_RATE_WINDOW :: int where
  "IP_RATE_WINDOW = 15 * 60 * 1000"

record RateLimitResult =
  allowed :: bool
  remaining :: int
  limit :: int
  resetAt :: int
  error :: "string option"

text \<open>
  The server clock as the limiter reads it: \<^verbatim>\<open>Date.now()\<close>, the local calendar fields of
  \<^verbatim>\<open>new Date()\<close>, and the host's conversion of a local calendar date (year, month 0..11,
  day) at midnight to epoch milliseconds, which depends on the host's time zone.
\<close>

record Clock =
  dateNow :: int
  fullYear :: int
  month :: int
  localMidnight :: "int \<Rightarrow> int \<Rightarrow> int \<Rightarrow> int"

text \<open>
  \<^verbatim>\<open>new Date(year, monthIndex, 1).getTime()\<close>: the constructor carries a month index
  outside 0..11 into the year.
\<close>

definition newDate :: "Clock \<Rightarrow> int \<Rightarrow> int \<Rightarrow> int \<Rightarrow> int" where
  "newDate clk y m d = localMidnight clk (y + m div 12) (m mod 12) d"

definition getMonthEndTimestamp :: "Clock \<Rightarrow> int" where
  "getMonthEndTimestamp clk = newDate clk (fullYear clk) (month clk + 1) 1"

definition checkMessageQuota :: "Clock \<Rightarrow> SubscriptionTier \<Rightarrow> int \<Rightarrow> RateLimitResult" where
  "checkMessageQuota clk tier currentUsage =
     (if isUnlimited tier then
        \<lparr>allowed = True, remaining = - 1, limit = - 1,
         resetAt = getMonthEndTimestamp clk, error = None\<rparr>
      else
        let lim = getMessageLimit tier;
            rem = max 0 (lim - currentUsage)
        in if currentUsage \<ge> lim then
             \<lparr>allowed = False, remaining = 0, limit = lim,
              resetAt = getMonthEndTimestamp clk,
              error = Some (''Monthly message limit reached ('' @ showInt lim @
                            '' messages). Upgrade your plan for more.'')\<rparr>
           else
             \<lparr>allowed = True, remaining = rem, limit = lim,
              resetAt = getMonthEndTimestamp clk, error = None\<rparr>)"

text \<open>The in-memory map \<^verbatim>\<open>ipRequestCounts\<close>: identifier to counter and reset time.\<close>

record IpRecord =
  count :: int
  windowResetAt :: int

type_synonym IpStore = "string \<rightharpoonup> IpRecord"

definition checkIPRateLimit :: "int \<Rightarrow> string \<Rightarrow> IpStore \<Rightarrow> RateLimitResult \<times> IpStore" where
  "checkIPRateLimit now ip store =
     (case store ip of
        None \<Rightarrow>
          (\<lparr>allowed = True, remaining = IP_RATE_LIMIT - 1, limit = IP_RATE_LIMIT,
            resetAt = now + IP_RATE_WINDOW, error = None\<rparr>,
           store(ip \<mapsto> \<lparr>count = 1, windowResetAt = now + IP_RATE_WINDOW\<rparr>))
      | Some record \<Rightarrow>
          if now > windowResetAt record then
            (\<lparr>allowed = True, remaining = IP_RATE_LIMIT - 1, limit = IP_RATE_LIMIT,
              resetAt = now + IP_RATE_WINDOW, error = None\<rparr>,
             store(ip \<mapsto> \<lparr>count = 1, windowResetAt = now + IP_RATE_WINDOW\<rparr>))
          else if count record \<ge> IP_RATE_LIMIT then
            (\<lparr>allowed = False, remaining = 0, limit = IP_RATE_LIMIT,
              resetAt = windowResetAt record,
              error = Some ''Too many requests. Please try again later.''\<rparr>,
             store)
          else
            (\<lparr>allowed = True, remaining = IP_RATE_LIMIT - (count record + 1),
              limit = IP_RATE_LIMIT, resetAt = windowResetAt record, error = None\<rparr>,
             store(ip \<mapsto> record\<lparr>count := count record + 1\<rparr>)))"

text \<open>
  Successive calls for one identifier, the clock reading \<open>t\<close> of each call given in order;
  the results are returned in call order.
\<close>

fun checkIPRateLimitSeq :: "int list \<Rightarrow> string \<Rightarrow> IpStore \<Rightarrow> RateLimitResult list \<times> IpStore" where
  "checkIPRateLimitSeq [] ip store = ([], store)"
| "checkIPRateLimitSeq (t # ts) ip store =
     (let (r, store') = checkIPRateLimit t ip store;
          (rs, store'') = checkIPRateLimitSeq ts ip store'
      in (r # rs, store''))"

text \<open>\<^verbatim>\<open>cleanupExpiredEntries\<close>: delete every entry whose window has passed.\<close>

definition cleanupExpiredEntries :: "int \<Rightarrow> IpStore \<Rightarrow> IpStore" where
  "cleanupExpiredEntries now store =
     (\<lambda>ip. case store ip of
              None \<Rightarrow> None
            | Some record \<Rightarrow> if now > windowResetAt record then None else Some record)"

section \<open>Family prefixes of the three vendors, as the specification names them\<close>

text \<open>
  The model-name families of the specification: \<open>gpt\<close>, \<open>o1\<close>, \<open>o3\<close> for OpenAI,
  \<open>claude\<close> for Anthropic, \<open>gemini\<close> for Google. \<open>inFamily\<close> is the case-insensitive
  prefix match against one vendor's families.
\<close>

definition familyPrefixes :: "AIProvider \<Rightarrow> string list" where
  "familyPrefixes p =
     (case p of OpenAI \<Rightarrow> [''gpt'', ''o1'', ''o3'']
              | Anthropic \<Rightarrow> [''claude'']
              | Google \<Rightarrow> [''gemini''])"

definition inFamily :: "AIProvider \<Rightarrow> string \<Rightarrow> bool" where
  "inFamily p model = list_ex (startsWith (toLowerCase model)) (familyPrefixes p)"

text \<open>
  An identifier starts a window of the limiter at time \<open>t\<close> when it has no entry or its
  entry's reset time has passed.
\<close>

definition windowStarts :: "IpStore \<Rightarrow> string \<Rightarrow> int \<Rightarrow> bool" where
  "windowStarts store ip t =
     (case store ip of None \<Rightarrow> True | Some record \<Rightarrow> t > windowResetAt record)"

section \<open>Effects: state, exceptions, asynchronous iteration\<close>

text \<open>
  A computation takes the state and returns the new state with either the thrown value
  (\<open>Inl\<close>) or the result (\<open>Inr\<close>). An \<^verbatim>\<open>await\<close>ed promise that rejects is a throw.
\<close>

type_synonym ('a, 's) io = "'s \<Rightarrow> (exn + 'a) \<times> 's"

definition returnIO :: "'a \<Rightarrow> ('a, 's) io" where
  "returnIO x s = (Inr x, s)"

definition throwIO :: "exn \<Rightarrow> ('a, 's) io" where
  "throwIO e s = (Inl e, s)"

definition bindIO :: "('a, 's) io \<Rightarrow> ('a \<Rightarrow> ('b, 's) io) \<Rightarrow> ('b, 's) io" where
  "bindIO m f s = (case m s of (Inl e, s') \<Rightarrow> (Inl e, s') | (Inr x, s') \<Rightarrow> f x s')"

definition thenIO :: "('a, 's) io \<Rightarrow> ('b, 's) io \<Rightarrow> ('b, 's) io" where
  "thenIO m n = bindIO m (\<lambda>_. n)"

text \<open>\<^verbatim>\<open>try { m } catch (e) { h(e) }\<close>\<close>

definition tryCatch :: "('a, 's) io \<Rightarrow> (exn \<Rightarrow> ('a, 's) io) \<Rightarrow> ('a, 's) io" where
  "tryCatch m h s = (case m s of (Inl e, s') \<Rightarrow> h e s' | (Inr x, s') \<Rightarrow> (Inr x, s'))"

text \<open>
  What a vendor's stream does when iterated: it yields finitely many items and then either
  ends or throws.
\<close>

datatype 'c AsyncIterable = AsyncIterable (yielded: "'c list") (thrown: "exn option")

text \<open>
  \<^verbatim>\<open>for await (const item of stream) { body }\<close>, the loop's local variables threaded as
  \<open>acc\<close>: the body runs on each item in order; a throw of the body or of the stream leaves
  the loop.
\<close>

fun forAwait :: "('c \<Rightarrow> 'a \<Rightarrow> ('a, 's) io) \<Rightarrow> 'c list \<Rightarrow> exn option \<Rightarrow> 'a \<Rightarrow> ('a, 's) io" where
  "forAwait body [] failure acc s =
     (case failure of None \<Rightarrow> (Inr acc, s) | Some e \<Rightarrow> (Inl e, s))"
| "forAwait body (item # rest) failure acc s =
     (case body item acc s of
        (Inl e, s') \<Rightarrow> (Inl e, s')
      | (Inr acc', s') \<Rightarrow> forAwait body rest failure acc' s')"

section \<open>Provider adapters (\<^verbatim>\<open>ai/types.ts\<close>, \<^verbatim>\<open>openai.ts\<close>, \<^verbatim>\<open>anthropic.ts\<close>, \<^verbatim>\<open>gemini.ts\<close>)\<close>

datatype Role = User | Assistant | System

record ChatMessage =
  role :: Role
  content :: string

record TokenUsage =
  prompt_tokens :: int
  completion_tokens :: int
  total_tokens :: int

text \<open>
  \<^verbatim>\<open>StreamCallbacks\<close>: three functions supplied by the caller. Each may change the
  caller's state and may throw.
\<close>

record 's StreamCallbacks =
  onToken :: "string \<Rightarrow> (unit, 's) io"
  onComplete :: "string \<Rightarrow> TokenUsage \<Rightarrow> (unit, 's) io"
  onError :: "exn \<Rightarrow> (unit, 's) io"

text \<open>
  \<^verbatim>\<open>AIProviderConfig\<close>. The sampling temperature, a float that the relay never sets, is
  left out of the configuration and of the vendor requests.
\<close>

record AIProviderConfig =
  apiKey :: string
  model :: string
  maxTokens :: "int option"

subsection \<open>OpenAI\<close>

record OpenAIRequest =
  openai_model :: string
  openai_messages :: "ChatMessage list"
  openai_max_tokens :: int

text \<open>
  A streamed chunk as the adapter reads it: \<^verbatim>\<open>chunk.choices[0]?.delta?.content\<close> (absent
  or a string) and \<^verbatim>\<open>chunk.usage\<close> (absent or the three counts).
\<close>

record OpenAIChunk =
  delta_content :: "string option"
  chunk_usage :: "TokenUsage option"

text \<open>
  The vendor's SDK, \<^verbatim>\<open>client.chat.completions.create\<close>: the call rejects, or gives a
  stream. What the adapter's \<^verbatim>\<open>catch\<close> block prints on the console is not part of the
  state.
\<close>

type_synonym OpenAIClient = "OpenAIRequest \<Rightarrow> exn + OpenAIChunk AsyncIterable"

definition openaiRequest :: "AIProviderConfig \<Rightarrow> ChatMessage list \<Rightarrow> OpenAIRequest" where
  "openaiRequest config messages =
     \<lparr>openai_model = model config,
      openai_messages = map (\<lambda>m. \<lparr>role = role m, content = content m\<rparr>) messages,
      openai_max_tokens = (case maxTokens config of None \<Rightarrow> 4096 | Some n \<Rightarrow> n)\<rparr>"

definition openaiLoopBody ::
  "'s StreamCallbacks \<Rightarrow> OpenAIChunk \<Rightarrow> string \<times> TokenUsage \<Rightarrow> (string \<times> TokenUsage, 's) io" where
  "openaiLoopBody callbacks chunk acc =
     (let (fullContent, usage) = acc;
          content = (case delta_content chunk of None \<Rightarrow> [] | Some text \<Rightarrow> text);
          usage' = (case chunk_usage chunk of None \<Rightarrow> usage | Some u \<Rightarrow> u)
      in if content \<noteq> []
         then thenIO (onToken callbacks content) (returnIO (fullContent @ content, usage'))
         else returnIO (fullContent, usage'))"

definition OpenAIProvider_streamChat ::
  "AIProviderConfig \<Rightarrow> OpenAIClient \<Rightarrow> ChatMessage list \<Rightarrow> 's StreamCallbacks \<Rightarrow> (unit, 's) io" where
  "OpenAIProvider_streamChat config client messages callbacks =
     tryCatch
       (case client (openaiRequest config messages) of
          Inl e \<Rightarrow> throwIO e
        | Inr stream \<Rightarrow>
            bindIO
              (forAwait (openaiLoopBody callbacks) (yielded stream) (thrown stream)
                 ([], \<lparr>prompt_tokens = 0, completion_tokens = 0, total_tokens = 0\<rparr>))
              (\<lambda>(fullContent, usage). onComplete callbacks fullContent usage))
       (\<lambda>error. onError callbacks (asError error))"

subsection \<open>Anthropic\<close>

record AnthropicRequest =
  anthropic_model :: string
  anthropic_max_tokens :: int
  anthropic_system :: string
  anthropic_messages :: "ChatMessage list"

datatype AnthropicDelta = TextDelta string | OtherDelta

datatype AnthropicEvent = ContentBlockDelta AnthropicDelta | OtherEvent

text \<open>
  \<^verbatim>\<open>client.messages.stream\<close>: the events of the stream, and what
  \<^verbatim>\<open>stream.finalMessage()\<close> gives afterwards: a rejection or the message's
  \<^verbatim>\<open>input_tokens\<close> and \<^verbatim>\<open>output_tokens\<close>.
\<close>

record AnthropicStream =
  events :: "AnthropicEvent AsyncIterable"
  finalMessage :: "exn + int \<times> int"

type_synonym AnthropicClient = "AnthropicRequest \<Rightarrow> exn + AnthropicStream"

text \<open>\<^verbatim>\<open>messages.find((m) => m.role === "system")?.content\<close>\<close>

definition findSystemContent :: "ChatMessage list \<Rightarrow> string option" where
  "findSystemContent messages = map_option content (find (\<lambda>m. role m = System) messages)"

definition anthropicRequest :: "AIProviderConfig \<Rightarrow> ChatMessage list \<Rightarrow> AnthropicRequest" where
  "anthropicRequest config messages =
     \<lparr>anthropic_model = model config,
      anthropic_max_tokens = (case maxTokens config of None \<Rightarrow> 4096 | Some n \<Rightarrow> n),
      anthropic_system = (case findSystemContent messages of None \<Rightarrow> [] | Some text \<Rightarrow> text),
      anthropic_messages =
        map (\<lambda>m. \<lparr>role = role m, content = content m\<rparr>) (filter (\<lambda>m. role m \<noteq> System) messages)\<rparr>"

definition anthropicLoopBody ::
  "'s StreamCallbacks \<Rightarrow> AnthropicEvent \<Rightarrow> string \<Rightarrow> (string, 's) io" where
  "anthropicLoopBody callbacks event fullContent =
     (case event of
        ContentBlockDelta (TextDelta text) \<Rightarrow>
          thenIO (onToken callbacks text) (returnIO (fullContent @ text))
      | _ \<Rightarrow> returnIO fullContent)"

definition AnthropicProvider_streamChat ::
  "AIProviderConfig \<Rightarrow> AnthropicClient \<Rightarrow> ChatMessage list \<Rightarrow> 's StreamCallbacks \<Rightarrow> (unit, 's) io" where
  "AnthropicProvider_streamChat config client messages callbacks =
     tryCatch
       (case client (anthropicRequest config messages) of
          Inl e \<Rightarrow> throwIO e
        | Inr stream \<Rightarrow>
            bindIO
              (forAwait (anthropicLoopBody callbacks)
                 (yielded (events stream)) (thrown (events stream)) [])
              (\<lambda>fullContent.
                 case finalMessage stream of
                   Inl e \<Rightarrow> throwIO e
                 | Inr (input_tokens, output_tokens) \<Rightarrow>
                     onComplete callbacks fullContent
                       \<lparr>prompt_tokens = input_tokens, completion_tokens = output_tokens,
                        total_tokens = input_tokens + output_tokens\<rparr>))
       (\<lambda>error. onError callbacks (asError error))"

subsection \<open>Google\<close>

record GoogleRequest =
  google_model :: string
  google_maxOutputTokens :: int
  google_history :: "(string \<times> string) list"
  google_systemInstruction :: "string option"
  google_message :: string

text \<open>
  \<^verbatim>\<open>usageMetadata\<close> with its three counts, each read with \<^verbatim>\<open>|| 0\<close>.
\<close>

record UsageMetadata =
  promptTokenCount :: "int option"
  candidatesTokenCount :: "int option"
  totalTokenCount :: "int option"

text \<open>
  \<^verbatim>\<open>chat.sendMessageStream\<close>: the chunks, each giving its text or throwing when
  \<^verbatim>\<open>chunk.text()\<close> is called, and what awaiting \<^verbatim>\<open>result.response\<close> gives afterwards.
\<close>

record GoogleStream =
  chunks :: "(exn + string) AsyncIterable"
  response :: "exn + UsageMetadata option"

type_synonym GoogleClient = "GoogleRequest \<Rightarrow> exn + GoogleStream"

text \<open>\<^verbatim>\<open>messages.filter((m) => m.role !== "system").slice(-1)[0]\<close>\<close>

definition lastMessage :: "ChatMessage list \<Rightarrow> ChatMessage option" where
  "lastMessage messages =
     (case rev (filter (\<lambda>m. role m \<noteq> System) messages) of [] \<Rightarrow> None | m # _ \<Rightarrow> Some m)"

text \<open>\<^verbatim>\<open>.filter(...).slice(0, -1).map(...)\<close>\<close>

definition googleHistory :: "ChatMessage list \<Rightarrow> (string \<times> string) list" where
  "googleHistory messages =
     map (\<lambda>m. (if role m = Assistant then ''model'' else ''user'', content m))
       (butlast (filter (\<lambda>m. role m \<noteq> System) messages))"

definition orZero :: "int option \<Rightarrow> int" where
  "orZero v = (case v of None \<Rightarrow> 0 | Some n \<Rightarrow> n)"

definition googleUsage :: "UsageMetadata option \<Rightarrow> TokenUsage" where
  "googleUsage usageMetadata =
     (case usageMetadata of
        None \<Rightarrow> \<lparr>prompt_tokens = 0, completion_tokens = 0, total_tokens = 0\<rparr>
      | Some u \<Rightarrow>
          \<lparr>prompt_tokens = orZero (promptTokenCount u),
           completion_tokens = orZero (candidatesTokenCount u),
           total_tokens = orZero (totalTokenCount u)\<rparr>)"

definition googleLoopBody ::
  "'s StreamCallbacks \<Rightarrow> exn + string \<Rightarrow> string \<Rightarrow> (string, 's) io" where
  "googleLoopBody callbacks chunk fullContent =
     (case chunk of
        Inl e \<Rightarrow> throwIO e
      | Inr text \<Rightarrow>
          if text \<noteq> []
          then thenIO (onToken callbacks text) (returnIO (fullContent @ text))
          else returnIO fullContent)"

definition GoogleProvider_streamChat ::
  "AIProviderConfig \<Rightarrow> GoogleClient \<Rightarrow> ChatMessage list \<Rightarrow> 's StreamCallbacks \<Rightarrow> (unit, 's) io" where
  "GoogleProvider_streamChat config client messages callbacks =
     tryCatch
       (case lastMessage messages of
          None \<Rightarrow> throwIO (Error ''No user message to send to Gemini'')
        | Some lastMsg \<Rightarrow>
            if content lastMsg = [] \<or> trim (content lastMsg) = []
            then throwIO (Error ''No user message to send to Gemini'')
            else
              (case client
                      \<lparr>google_model = model config,
                       google_maxOutputTokens =
                         (case maxTokens config of None \<Rightarrow> 4096 | Some n \<Rightarrow> n),
                       google_history = googleHistory messages,
                       google_systemInstruction =
                         (case findSystemContent messages of
                            None \<Rightarrow> None
                          | Some text \<Rightarrow> if text \<noteq> [] then Some text else None),
                       google_message = content lastMsg\<rparr> of
                 Inl e \<Rightarrow> throwIO e
               | Inr result \<Rightarrow>
                   bindIO
                     (forAwait (googleLoopBody callbacks)
                        (yielded (chunks result)) (thrown (chunks result)) [])
                     (\<lambda>fullContent.
                        case response result of
                          Inl e \<Rightarrow> throwIO e
                        | Inr usageMetadata \<Rightarrow>
                            onComplete callbacks fullContent (googleUsage usageMetadata))))
       (\<lambda>error. onError callbacks (asError error))"

subsection \<open>The capability interface and its factory\<close>

text \<open>
  An adapter behind \<^verbatim>\<open>AIProviderInterface\<close>: one of the three classes with its
  configuration and its vendor SDK client.
\<close>

datatype AIProviderInterface =
    OpenAIProvider AIProviderConfig OpenAIClient
  | AnthropicProvider AIProviderConfig AnthropicClient
  | GoogleProvider AIProviderConfig GoogleClient

fun streamChat :: "AIProviderInterface \<Rightarrow> ChatMessage list \<Rightarrow> 's StreamCallbacks \<Rightarrow> (unit, 's) io" where
  "streamChat (OpenAIProvider config client) = OpenAIProvider_streamChat config client"
| "streamChat (AnthropicProvider config client) = AnthropicProvider_streamChat config client"
| "streamChat (GoogleProvider config client) = GoogleProvider_streamChat config client"

text \<open>The SDK clients of the three vendors, as the constructors obtain them.\<close>

record Vendors =
  openaiClient :: OpenAIClient
  anthropicClient :: AnthropicClient
  googleClient :: GoogleClient

fun createAIProvider :: "Vendors \<Rightarrow> AIProvider \<Rightarrow> AIProviderConfig \<Rightarrow> AIProviderInterface" where
  "createAIProvider vendors OpenAI config = OpenAIProvider config (openaiClient vendors)"
| "createAIProvider vendors Anthropic config = AnthropicProvider config (anthropicClient vendors)"
| "createAIProvider vendors Google config = GoogleProvider config (googleClient vendors)"

subsection \<open>Observing the callbacks an adapter invokes\<close>

text \<open>
  One invocation of a callback with its arguments. \<open>recorder\<close> is the set of callbacks that
  appends each invocation to a log and returns normally; \<open>invocations\<close> is the log an
  adapter leaves on a turn sequence.
\<close>

datatype Invocation = OnToken string | OnComplete string TokenUsage | OnError exn

definition recorder :: "(Invocation list) StreamCallbacks" where
  "recorder =
     \<lparr>onToken = (\<lambda>token log. (Inr (), log @ [OnToken token])),
      onComplete = (\<lambda>fullContent usage log. (Inr (), log @ [OnComplete fullContent usage])),
      onError = (\<lambda>error log. (Inr (), log @ [OnError error]))\<rparr>"

definition invocations :: "AIProviderInterface \<Rightarrow> ChatMessage list \<Rightarrow> Invocation list" where
  "invocations provider messages = snd (streamChat provider messages recorder [])"

fun isTerminalCall :: "Invocation \<Rightarrow> bool" where
  "isTerminalCall (OnToken _) = False"
| "isTerminalCall (OnComplete _ _) = True"
| "isTerminalCall (OnError _) = True"

fun tokenTexts :: "Invocation list \<Rightarrow> string list" where
  "tokenTexts [] = []"
| "tokenTexts (OnToken text # rest) = text # tokenTexts rest"
| "tokenTexts (_ # rest) = tokenTexts rest"

fun completedTexts :: "Invocation list \<Rightarrow> string list" where
  "completedTexts [] = []"
| "completedTexts (OnComplete fullContent _ # rest) = fullContent # completedTexts rest"
| "completedTexts (_ # rest) = completedTexts rest"

text \<open>
  The specification's valid turn sequence: after removing \<open>system\<close> turns, the last turn
  is a \<open>user\<close> turn with non-empty content.
\<close>

definition endsWithUserTurn :: "ChatMessage list \<Rightarrow> bool" where
  "endsWithUserTurn messages =
     (case rev (filter (\<lambda>m. role m \<noteq> System) messages) of
        [] \<Rightarrow> False
      | m # _ \<Rightarrow> role m = User \<and> content m \<noteq> [])"

section \<open>Usage tracker (\<^verbatim>\<open>usage-tracker.ts\<close>) and the state of the server\<close>

datatype StreamEvent = TokenEvent string | DoneEvent TokenUsage | ErrorEvent string

text \<open>
  A row of the \<open>messages\<close> table as the relay inserts it (the latency in its metadata, a
  clock difference, is left out), and the \<open>usage_logs\<close> row of a user for the current
  period.
\<close>

record MessageRow =
  row_chat_id :: string
  row_role :: string
  row_content :: string
  row_tokens_used :: int
  row_model :: string
  row_provider :: AIProvider

record UsageRow =
  messages_count :: int
  tokens_used :: int

text \<open>
  Everything a request can change: the limiter's map, the tables, the server log, and the
  response stream's controller (its queue and whether it is closed) with the two local
  variables of \<^verbatim>\<open>start\<close>. \<open>incrementCalls\<close> lists the calls of
  \<^verbatim>\<open>incrementMessageCount\<close> with their arguments.
\<close>

record Relay =
  ipRequestCounts :: IpStore
  messagesTable :: "MessageRow list"
  chatsTouched :: "string list"
  usage_logs :: "string \<rightharpoonup> UsageRow"
  incrementCalls :: "(string \<times> int) list"
  serverLog :: "string list"
  queue :: "StreamEvent list"
  closed :: bool
  local_fullContent :: string
  local_totalTokens :: int

text \<open>
  What the storage collaborator answers to a write: success, a result carrying an error,
  or a rejected promise.
\<close>

datatype DbResult = DbOk | DbError string | DbThrows exn

record Storage =
  insertResult :: DbResult
  updateResult :: DbResult
  incrementFailure :: "exn option"
  usageReadFails :: bool

text \<open>
  \<^verbatim>\<open>incrementMessageCount\<close>: the call rejects before writing (its storage client
  cannot be created or reached), or it updates the existing row, or it creates the row of
  the period.
\<close>

definition incrementMessageCount :: "Storage \<Rightarrow> string \<Rightarrow> int \<Rightarrow> (unit, Relay) io" where
  "incrementMessageCount storage userId tokensUsed s =
     (let s1 = s\<lparr>incrementCalls := incrementCalls s @ [(userId, tokensUsed)]\<rparr>
      in case incrementFailure storage of
           Some e \<Rightarrow> (Inl e, s1)
         | None \<Rightarrow>
             (Inr (),
              s1\<lparr>usage_logs := (usage_logs s1)(userId \<mapsto>
                    (case usage_logs s1 userId of
                       Some existingRecord \<Rightarrow>
                         \<lparr>messages_count = messages_count existingRecord + 1,
                          tokens_used = tokens_used existingRecord + tokensUsed\<rparr>
                     | None \<Rightarrow> \<lparr>messages_count = 1, tokens_used = tokensUsed\<rparr>))\<rparr>))"

record UsageStats =
  messagesUsed :: int
  tokensUsed :: int

text \<open>\<^verbatim>\<open>getUserUsage\<close>: a read error or a missing row count as no usage.\<close>

definition getUserUsage :: "Storage \<Rightarrow> string \<Rightarrow> Relay \<Rightarrow> UsageStats" where
  "getUserUsage storage userId s =
     (case (if usageReadFails storage then None else usage_logs s userId) of
        None \<Rightarrow> \<lparr>messagesUsed = 0, tokensUsed = 0\<rparr>
      | Some data \<Rightarrow> \<lparr>messagesUsed = messages_count data, tokensUsed = tokens_used data\<rparr>)"

section \<open>The response stream's controller and the logger\<close>

text \<open>
  \<^verbatim>\<open>controller.enqueue\<close> and \<^verbatim>\<open>controller.close\<close> throw a \<^verbatim>\<open>TypeError\<close> once the
  stream is closed.
\<close>

definition enqueue :: "StreamEvent \<Rightarrow> (unit, Relay) io" where
  "enqueue event s =
     (if closed s then (Inl (Error ''TypeError: controller is closed''), s)
      else (Inr (), s\<lparr>queue := queue s @ [event]\<rparr>))"

definition close :: "(unit, Relay) io" where
  "close s =
     (if closed s then (Inl (Error ''TypeError: controller is closed''), s)
      else (Inr (), s\<lparr>closed := True\<rparr>))"

text \<open>\<^verbatim>\<open>logger.error\<close>, \<^verbatim>\<open>logger.chat\<close>: the message goes to the server's log.\<close>

definition logger :: "string \<Rightarrow> (unit, Relay) io" where
  "logger message s = (Inr (), s\<lparr>serverLog := serverLog s @ [message]\<rparr>)"

section \<open>Relay orchestrator (the chat route's \<^verbatim>\<open>POST\<close> handler)\<close>

text \<open>The variables of \<^verbatim>\<open>POST\<close> that the stream's callbacks close over.\<close>

record Closure =
  user_id :: string
  chosen_model :: string
  chatId :: "string option"
  provider :: AIProvider
  storage :: Storage

definition relay_onToken :: "string \<Rightarrow> (unit, Relay) io" where
  "relay_onToken token s =
     enqueue (TokenEvent token) (s\<lparr>local_fullContent := local_fullContent s @ token\<rparr>)"

text \<open>
  The part of \<^verbatim>\<open>onComplete\<close>'s \<^verbatim>\<open>try\<close> block under \<^verbatim>\<open>if (chatId)\<close>. Its result
  says whether the block goes on (\<open>True\<close>) or has returned (\<open>False\<close>).
\<close>

definition saveMessage :: "Closure \<Rightarrow> string \<Rightarrow> string \<Rightarrow> TokenUsage \<Rightarrow> (bool, Relay) io" where
  "saveMessage c chat content' usage =
     (case insertResult (storage c) of
        DbThrows e \<Rightarrow> throwIO e
      | DbError err \<Rightarrow>
          thenIO (logger ''Failed to insert message in onComplete'')
         (thenIO (enqueue (ErrorEvent ''Failed to persist message''))
         (thenIO close
                 (returnIO False)))
      | DbOk \<Rightarrow>
          thenIO (\<lambda>s. (Inr (),
                    s\<lparr>messagesTable := messagesTable s @
                        [\<lparr>row_chat_id = chat, row_role = ''assistant'', row_content = content',
                          row_tokens_used = total_tokens usage, row_model = chosen_model c,
                          row_provider = provider c\<rparr>]\<rparr>))
         (thenIO (case updateResult (storage c) of
                    DbThrows e \<Rightarrow> throwIO e
                  | DbError err \<Rightarrow> logger ''Failed to update chat updated_at''
                  | DbOk \<Rightarrow> (\<lambda>s. (Inr (), s\<lparr>chatsTouched := chatsTouched s @ [chat]\<rparr>)))
                 (returnIO True)))"

text \<open>The \<^verbatim>\<open>try\<close> block of \<^verbatim>\<open>onComplete\<close>.\<close>

definition finalize :: "Closure \<Rightarrow> string \<Rightarrow> TokenUsage \<Rightarrow> (unit, Relay) io" where
  "finalize c content' usage =
     thenIO (\<lambda>s. (Inr (), s\<lparr>local_totalTokens := total_tokens usage\<rparr>))
    (bindIO (case chatId c of
               None \<Rightarrow> returnIO True
             | Some chat \<Rightarrow> if chat \<noteq> [] then saveMessage c chat content' usage else returnIO True)
       (\<lambda>goOn.
          if \<not> goOn then returnIO ()
          else
            thenIO (incrementMessageCount (storage c) (user_id c) (total_tokens usage))
           (thenIO (enqueue (DoneEvent usage))
           (thenIO close
                   (logger ''Chat: complete'')))))"

text \<open>
  \<^verbatim>\<open>onComplete\<close> is an \<^verbatim>\<open>async\<close> function: the adapter that calls it receives a promise
  and never an exception, also when the handler of its \<^verbatim>\<open>catch\<close> throws. The adapters do
  nothing after the call, so the function's effects are placed at the call.
\<close>

definition relay_onComplete :: "Closure \<Rightarrow> string \<Rightarrow> TokenUsage \<Rightarrow> (unit, Relay) io" where
  "relay_onComplete c content' usage s =
     (Inr (),
      snd (tryCatch (finalize c content' usage)
             (\<lambda>err.
                thenIO (logger ''onComplete handler failed'')
               (thenIO (enqueue (ErrorEvent ''An internal error occurred while finalizing the response''))
                       close))
             s))"

definition relay_onError :: "exn \<Rightarrow> (unit, Relay) io" where
  "relay_onError err =
     thenIO (logger ''Chat stream error'')
    (thenIO (enqueue (ErrorEvent ''An internal error occurred while generating the response''))
            close)"

definition relayCallbacks :: "Closure \<Rightarrow> Relay StreamCallbacks" where
  "relayCallbacks c =
     \<lparr>onToken = relay_onToken, onComplete = relay_onComplete c, onError = relay_onError\<rparr>"

text \<open>
  \<^verbatim>\<open>start(controller)\<close> of the response's \<^verbatim>\<open>ReadableStream\<close>, run on a fresh
  controller; the result is the state when the stream's work has ended.
\<close>

definition start :: "AIProviderInterface \<Rightarrow> ChatMessage list \<Rightarrow> Closure \<Rightarrow> Relay \<Rightarrow> Relay" where
  "start aiProvider sanitizedMessages c s =
     snd (tryCatch (streamChat aiProvider sanitizedMessages (relayCallbacks c))
            (\<lambda>err.
               thenIO (enqueue (ErrorEvent ''An internal error occurred while generating the response''))
              (thenIO close
                      (logger ''Stream failure'')))
            (s\<lparr>queue := [], closed := False, local_fullContent := [], local_totalTokens := 0\<rparr>))"

subsection \<open>The request and its validation\<close>

record RawMessage =
  raw_role :: string
  raw_content :: string

record RawChatRequest =
  raw_messages :: "RawMessage list"
  raw_model :: string
  raw_chatId :: "string option"

text \<open>
  The JSON value of a request body: one whose fields do not have the types of the schema,
  or an object with a list of \<open>{role, content}\<close> strings, a model string and an optional
  \<open>chatId\<close> string. A body that is not JSON at all has no value: \<^verbatim>\<open>request.json()\<close>
  rejects.
\<close>

datatype JsonValue = WrongShape | ChatRequestBody RawChatRequest

record NextRequest =
  x_forwarded_for :: "string option"
  x_real_ip :: "string option"
  cf_connecting_ip :: "string option"
  true_client_ip :: "string option"
  body :: "JsonValue option"

record ChatRequest =
  requested_messages :: "ChatMessage list"
  requested_model :: string
  requested_chatId :: "string option"

text \<open>
  An issue of the schema library: one whose message the schema of the source gives, or one
  of the library's own (a value outside an enumeration, a malformed UUID, a wrong type).
\<close>

datatype ZodIssue = Custom string | InvalidEnumValue string | InvalidUuid string | InvalidType

definition parseRole :: "string \<Rightarrow> Role option" where
  "parseRole r =
     (if r = ''user'' then Some User
      else if r = ''assistant'' then Some Assistant
      else if r = ''system'' then Some System
      else None)"

definition chatMessageIssues :: "RawMessage \<Rightarrow> ZodIssue list" where
  "chatMessageIssues m =
     (case parseRole (raw_role m) of None \<Rightarrow> [InvalidEnumValue (raw_role m)] | Some _ \<Rightarrow> []) @
     (if length (raw_content m) < 1 then [Custom ''Message cannot be empty''] else []) @
     (if length (raw_content m) > 32000
      then [Custom ''Message too long (max 32,000 characters)''] else [])"

text \<open>
  The issues of \<^verbatim>\<open>chatRequestSchema\<close> on a body of the right shape. \<open>uuidOk\<close> is the
  library's test of a UUID string.
\<close>

definition chatRequestIssues :: "(string \<Rightarrow> bool) \<Rightarrow> RawChatRequest \<Rightarrow> ZodIssue list" where
  "chatRequestIssues uuidOk r =
     (if length (raw_messages r) < 1 then [Custom ''At least one message is required''] else []) @
     (if length (raw_messages r) > 100 then [Custom ''Too many messages''] else []) @
     concat (map chatMessageIssues (raw_messages r)) @
     (if raw_model r \<in> set aiModelSchema then [] else [InvalidEnumValue (raw_model r)]) @
     (case raw_chatId r of
        None \<Rightarrow> []
      | Some u \<Rightarrow> if uuidOk u then [] else [InvalidUuid u])"

text \<open>
  \<^verbatim>\<open>validateRequest(chatRequestSchema, body)\<close>: the parsed request, or the issues that
  the thrown error's message lists after \<open>Validation failed:\<close>.
\<close>

definition validateRequest :: "(string \<Rightarrow> bool) \<Rightarrow> JsonValue \<Rightarrow> ZodIssue list + ChatRequest" where
  "validateRequest uuidOk b =
     (case b of
        WrongShape \<Rightarrow> Inl [InvalidType]
      | ChatRequestBody r \<Rightarrow>
          if chatRequestIssues uuidOk r = []
          then Inr \<lparr>requested_messages =
                      map (\<lambda>m. \<lparr>role = (case parseRole (raw_role m) of Some x \<Rightarrow> x | None \<Rightarrow> User),
                                content = raw_content m\<rparr>) (raw_messages r),
                    requested_model = raw_model r,
                    requested_chatId = raw_chatId r\<rparr>
          else Inl (chatRequestIssues uuidOk r))"

subsection \<open>The handler\<close>

text \<open>
  The body of a response: \<open>{error: message}\<close> with a message of the source, with no
  message, with the message of the runtime's JSON parser, or with the validation issues;
  \<open>{error, usage}\<close> of a quota denial (the usage without its two period dates); or the
  events of the stream.
\<close>

datatype ResponseBody =
    JsonError string
  | JsonEmpty
  | JsonParserMessage
  | JsonValidationError "ZodIssue list"
  | JsonQuotaError "string option" UsageStats
  | EventStream "StreamEvent list"

record Response =
  status :: nat
  headers :: "(string \<times> string) list"
  payload :: ResponseBody

datatype ProfileResult = ProfileError | ProfileRow "SubscriptionTier option"

text \<open>
  What the handler is given besides the request: the clock (and the later reading of
  \<^verbatim>\<open>Date.now()\<close> used for \<open>Retry-After\<close>), the session and profile lookups, the
  configured API keys, the vendors, the storage collaborator, the schema library's UUID
  test, and the pattern removal of \<^verbatim>\<open>sanitizeChatMessage\<close> (a chain of regular-expression
  replacements, taken as given).
\<close>

record Environment =
  clock :: Clock
  retryNow :: int
  createClientFailure :: "exn option"
  authUser :: "string option"
  profile :: ProfileResult
  apiKeyFor :: "AIProvider \<Rightarrow> string option"
  vendors :: Vendors
  store :: Storage
  uuidCheck :: "string \<Rightarrow> bool"
  removePatterns :: "string \<Rightarrow> string"

definition sanitizeChatMessage :: "(string \<Rightarrow> string) \<Rightarrow> string \<Rightarrow> string" where
  "sanitizeChatMessage removeDangerous message = trim (removeDangerous message)"

text \<open>
  The client address: the first comma-separated entry of \<open>x-forwarded-for\<close>, trimmed, when
  that header is a non-empty string; otherwise the first of the three other headers that is
  present.
\<close>

definition ipCandidate :: "NextRequest \<Rightarrow> string option" where
  "ipCandidate request =
     (case x_forwarded_for request of
        Some xff \<Rightarrow>
          if xff \<noteq> [] then Some (trim (takeWhile (\<lambda>ch. ch \<noteq> CHR '','') xff))
          else (case x_real_ip request of
                  Some v \<Rightarrow> Some v
                | None \<Rightarrow> (case cf_connecting_ip request of
                             Some v \<Rightarrow> Some v
                           | None \<Rightarrow> true_client_ip request))
      | None \<Rightarrow>
          (case x_real_ip request of
             Some v \<Rightarrow> Some v
           | None \<Rightarrow> (case cf_connecting_ip request of
                        Some v \<Rightarrow> Some v
                      | None \<Rightarrow> true_client_ip request)))"

text \<open>\<^verbatim>\<open>Math.ceil(ms / 1000)\<close> on an integer number of milliseconds.\<close>

definition ceilSeconds :: "int \<Rightarrow> int" where
  "ceilSeconds ms = - ((- ms) div 1000)"

definition providerName :: "AIProvider \<Rightarrow> string" where
  "providerName p = (case p of OpenAI \<Rightarrow> ''openai'' | Anthropic \<Rightarrow> ''anthropic'' | Google \<Rightarrow> ''google'')"

text \<open>The outer \<^verbatim>\<open>catch\<close> of the handler.\<close>

definition internalError :: "exn \<Rightarrow> Relay \<Rightarrow> Response \<times> Relay" where
  "internalError e s =
     (\<lparr>status = 500, headers = [],
       payload = JsonError (case e of Error m \<Rightarrow> m | Thrown _ \<Rightarrow> ''Internal error'')\<rparr>,
      s\<lparr>serverLog := serverLog s @ [''Chat API error'']\<rparr>)"

text \<open>
  The first part of the handler, up to the quota check: the client address, the IP rate
  guard, the session, the profile and the quota guard. Each early \<^verbatim>\<open>return\<close> is an
  \<open>Inl\<close> response; otherwise the user and the tier go on.
\<close>

definition guards ::
  "Environment \<Rightarrow> NextRequest \<Rightarrow> Relay \<Rightarrow> (Response + string \<times> SubscriptionTier) \<times> Relay" where
  "guards env request s =
     (case ipCandidate request of
        None \<Rightarrow>
          (Inl \<lparr>status = 400, headers = [],
                payload = JsonError ''Could not determine client IP''\<rparr>, s)
      | Some ip \<Rightarrow>
          if ip = [] then
            (Inl \<lparr>status = 400, headers = [],
                  payload = JsonError ''Could not determine client IP''\<rparr>, s)
          else
            let (ipCheck, counts) = checkIPRateLimit (dateNow (clock env)) ip (ipRequestCounts s);
                s1 = s\<lparr>ipRequestCounts := counts\<rparr>
            in if \<not> allowed ipCheck then
                 (Inl \<lparr>status = 429,
                       headers = [(''Retry-After'',
                                   showInt (ceilSeconds (resetAt ipCheck - retryNow env)))],
                       payload = (case error ipCheck of
                                    None \<Rightarrow> JsonEmpty
                                  | Some m \<Rightarrow> JsonError m)\<rparr>,
                  s1)
               else
                 (case createClientFailure env of
                    Some e \<Rightarrow> (Inl (fst (internalError e s1)), snd (internalError e s1))
                  | None \<Rightarrow>
                      (case authUser env of
                         None \<Rightarrow>
                           (Inl \<lparr>status = 401, headers = [],
                                 payload = JsonError ''Unauthorized''\<rparr>, s1)
                       | Some userId \<Rightarrow>
                           (case profile env of
                              ProfileError \<Rightarrow>
                                (Inl \<lparr>status = 500, headers = [],
                                      payload = JsonError ''Failed to fetch profile''\<rparr>,
                                 s1\<lparr>serverLog := serverLog s1 @ [''Failed to fetch profile'']\<rparr>)
                            | ProfileRow subscription_tier \<Rightarrow>
                                let tier = (case subscription_tier of
                                              None \<Rightarrow> Free
                                            | Some t \<Rightarrow> t);
                                    usage = getUserUsage (store env) userId s1;
                                    quotaCheck =
                                      checkMessageQuota (clock env) tier (messagesUsed usage)
                                in if \<not> allowed quotaCheck then
                                     (Inl \<lparr>status = 429, headers = [],
                                           payload = JsonQuotaError (error quotaCheck) usage\<rparr>,
                                      s1)
                                   else (Inr (userId, tier), s1)))))"

text \<open>
  What the handler has in hand when it builds the response stream: the adapter, the
  sanitized turns and the variables its callbacks close over.
\<close>

record Admission =
  admitted_provider :: AIProviderInterface
  admitted_messages :: "ChatMessage list"
  admitted_closure :: Closure

text \<open>
  From the validated request to the adapter: model access for the tier, sanitization, the
  vendor of the model, its API key, the construction of the adapter.
\<close>

definition authorize ::
  "Environment \<Rightarrow> string \<Rightarrow> SubscriptionTier \<Rightarrow> ChatRequest \<Rightarrow> Relay \<Rightarrow>
     (Response + Admission) \<times> Relay" where
  "authorize env userId tier parsed s =
     (if \<not> canAccessModel tier (requested_model parsed) then
        (Inl \<lparr>status = 403, headers = [],
              payload = JsonError (''Your subscription tier does not include access to '' @
                                   requested_model parsed)\<rparr>, s)
      else
        let sanitizedMessages =
              map (\<lambda>m. m\<lparr>content := sanitizeChatMessage (removePatterns env) (content m)\<rparr>)
                (requested_messages parsed)
        in case getProviderFromModel (requested_model parsed) of
             Inl e \<Rightarrow> (Inl (fst (internalError e s)), snd (internalError e s))
           | Inr p \<Rightarrow>
               (case apiKeyFor env p of
                  None \<Rightarrow>
                    (Inl \<lparr>status = 500, headers = [],
                          payload = JsonError (''API key not configured for '' @ providerName p)\<rparr>,
                     s)
                | Some key \<Rightarrow>
                    if key = [] then
                      (Inl \<lparr>status = 500, headers = [],
                            payload = JsonError (''API key not configured for '' @ providerName p)\<rparr>,
                       s)
                    else
                      (Inr \<lparr>admitted_provider =
                              createAIProvider (vendors env) p
                                \<lparr>apiKey = key, model = requested_model parsed, maxTokens = None\<rparr>,
                            admitted_messages = sanitizedMessages,
                            admitted_closure =
                              \<lparr>user_id = userId, chosen_model = requested_model parsed,
                               chatId = requested_chatId parsed, provider = p,
                               storage = store env\<rparr>\<rparr>,
                       s)))"

text \<open>
  Everything the handler does before it builds the response stream: either an error
  response, or the request is admitted to streaming.
\<close>

definition admission ::
  "Environment \<Rightarrow> NextRequest \<Rightarrow> Relay \<Rightarrow> (Response + Admission) \<times> Relay" where
  "admission env request s =
     (case guards env request s of
        (Inl denied, s1) \<Rightarrow> (Inl denied, s1)
      | (Inr (userId, tier), s1) \<Rightarrow>
          (case body request of
             None \<Rightarrow>
               (Inl \<lparr>status = 400, headers = [], payload = JsonParserMessage\<rparr>,
                s1\<lparr>serverLog := serverLog s1 @ [''Client request validation failed'']\<rparr>)
           | Some json \<Rightarrow>
               (case validateRequest (uuidCheck env) json of
                  Inl issues \<Rightarrow>
                    (Inl \<lparr>status = 400, headers = [], payload = JsonValidationError issues\<rparr>,
                     s1\<lparr>serverLog := serverLog s1 @ [''Client request validation failed'']\<rparr>)
                | Inr parsed \<Rightarrow> authorize env userId tier parsed s1)))"

text \<open>
  \<^verbatim>\<open>POST\<close>: the response, and the state once the response stream has done its work.
\<close>

definition POST :: "Environment \<Rightarrow> NextRequest \<Rightarrow> Relay \<Rightarrow> Response \<times> Relay" where
  "POST env request s =
     (case admission env request s of
        (Inl rejected, s1) \<Rightarrow> (rejected, s1)
      | (Inr a, s1) \<Rightarrow>
          let s' = start (admitted_provider a) (admitted_messages a) (admitted_closure a) s1
          in (\<lparr>status = 200,
               headers = [(''Content-Type'', ''text/event-stream''),
                          (''Cache-Control'', ''no-cache''),
                          (''Connection'', ''keep-alive'')],
               payload = EventStream (queue s')\<rparr>, s'))"

section \<open>What an adapter's vendor produced, and how it is delivered\<close>

text \<open>
  The vendor's side of one \<^verbatim>\<open>streamChat\<close> call, read off the vendor's answer alone: the
  text deltas the adapter will pass on, in order, and how the call ends (a failure, or the
  usage reported with the completion).
\<close>

datatype Generation = Generation (emitted: "string list") (ending: "exn + TokenUsage")

definition openaiTokens :: "OpenAIChunk list \<Rightarrow> string list" where
  "openaiTokens cs =
     filter (\<lambda>t. t \<noteq> []) (map (\<lambda>c. case delta_content c of None \<Rightarrow> [] | Some t \<Rightarrow> t) cs)"

definition openaiUsage :: "TokenUsage \<Rightarrow> OpenAIChunk list \<Rightarrow> TokenUsage" where
  "openaiUsage u cs = foldl (\<lambda>u c. case chunk_usage c of None \<Rightarrow> u | Some v \<Rightarrow> v) u cs"

fun anthropicTokens :: "AnthropicEvent list \<Rightarrow> string list" where
  "anthropicTokens [] = []"
| "anthropicTokens (ContentBlockDelta (TextDelta t) # es) = t # anthropicTokens es"
| "anthropicTokens (_ # es) = anthropicTokens es"

fun googleTokens :: "(exn + string) list \<Rightarrow> string list" where
  "googleTokens [] = []"
| "googleTokens (Inl e # cs) = []"
| "googleTokens (Inr t # cs) = (if t \<noteq> [] then t # googleTokens cs else googleTokens cs)"

fun googleTextFailure :: "(exn + string) list \<Rightarrow> exn option" where
  "googleTextFailure [] = None"
| "googleTextFailure (Inl e # cs) = Some e"
| "googleTextFailure (Inr t # cs) = googleTextFailure cs"

fun generation :: "AIProviderInterface \<Rightarrow> ChatMessage list \<Rightarrow> Generation" where
  "generation (OpenAIProvider config client) msgs =
     (case client (openaiRequest config msgs) of
        Inl e \<Rightarrow> Generation [] (Inl e)
      | Inr stream \<Rightarrow>
          Generation (openaiTokens (yielded stream))
            (case thrown stream of
               Some e \<Rightarrow> Inl e
             | None \<Rightarrow> Inr (openaiUsage \<lparr>prompt_tokens = 0, completion_tokens = 0, total_tokens = 0\<rparr>
                             (yielded stream))))"
| "generation (AnthropicProvider config client) msgs =
     (case client (anthropicRequest config msgs) of
        Inl e \<Rightarrow> Generation [] (Inl e)
      | Inr stream \<Rightarrow>
          Generation (anthropicTokens (yielded (events stream)))
            (case thrown (events stream) of
               Some e \<Rightarrow> Inl e
             | None \<Rightarrow>
                 (case finalMessage stream of
                    Inl e \<Rightarrow> Inl e
                  | Inr (i, out) \<Rightarrow>
                      Inr \<lparr>prompt_tokens = i, completion_tokens = out, total_tokens = i + out\<rparr>)))"
| "generation (GoogleProvider config client) msgs =
     (case lastMessage msgs of
        None \<Rightarrow> Generation [] (Inl (Error ''No user message to send to Gemini''))
      | Some lastMsg \<Rightarrow>
          if content lastMsg = [] \<or> trim (content lastMsg) = []
          then Generation [] (Inl (Error ''No user message to send to Gemini''))
          else
            (case client
                    \<lparr>google_model = model config,
                     google_maxOutputTokens =
                       (case maxTokens config of None \<Rightarrow> 4096 | Some n \<Rightarrow> n),
                     google_history = googleHistory msgs,
                     google_systemInstruction =
                       (case findSystemContent msgs of
                          None \<Rightarrow> None
                        | Some text \<Rightarrow> if text \<noteq> [] then Some text else None),
                     google_message = content lastMsg\<rparr> of
               Inl e \<Rightarrow> Generation [] (Inl e)
             | Inr result \<Rightarrow>
                 Generation (googleTokens (yielded (chunks result)))
                   (case googleTextFailure (yielded (chunks result)) of
                      Some e \<Rightarrow> Inl e
                    | None \<Rightarrow>
                        (case thrown (chunks result) of
                           Some e \<Rightarrow> Inl e
                         | None \<Rightarrow>
                             (case response result of
                                Inl e \<Rightarrow> Inl e
                              | Inr usageMetadata \<Rightarrow> Inr (googleUsage usageMetadata))))))"

text \<open>
  The callback protocol: every delta goes to \<^verbatim>\<open>onToken\<close>, then the completion goes to
  \<^verbatim>\<open>onComplete\<close> with the concatenated deltas, and whatever is thrown on the way, by the
  vendor or by a callback, goes to \<^verbatim>\<open>onError\<close>.
\<close>

fun deliverTokens :: "'s StreamCallbacks \<Rightarrow> string list \<Rightarrow> (unit, 's) io" where
  "deliverTokens callbacks [] = returnIO ()"
| "deliverTokens callbacks (t # ts) = thenIO (onToken callbacks t) (deliverTokens callbacks ts)"

definition deliver :: "'s StreamCallbacks \<Rightarrow> Generation \<Rightarrow> (unit, 's) io" where
  "deliver callbacks g =
     tryCatch
       (thenIO (deliverTokens callbacks (emitted g))
          (case ending g of
             Inl e \<Rightarrow> throwIO e
           | Inr usage \<Rightarrow> onComplete callbacks (concat (emitted g)) usage))
       (\<lambda>error. onError callbacks (asError error))"

definition terminalCall :: "Generation \<Rightarrow> Invocation" where
  "terminalCall g =
     (case ending g of
        Inl e \<Rightarrow> OnError (asError e)
      | Inr usage \<Rightarrow> OnComplete (concat (emitted g)) usage)"

fun isTerminalEvent :: "StreamEvent \<Rightarrow> bool" where
  "isTerminalEvent (TokenEvent _) = False"
| "isTerminalEvent (DoneEvent _) = True"
| "isTerminalEvent (ErrorEvent _) = True"

text \<open>
  The state of \<^verbatim>\<open>start\<close> when the deltas \<open>toks\<close> have been relayed to a fresh controller.
\<close>

definition streamed :: "Relay \<Rightarrow> string list \<Rightarrow> Relay" where
  "streamed s toks =
     s\<lparr>queue := map TokenEvent toks, closed := False,
       local_fullContent := concat toks, local_totalTokens := 0\<rparr>"

section \<open>Concrete inputs\<close>

text \<open>
  A clock in December 2024 on a host whose months all have thirty days, a vendor that
  streams \<open>Hel\<close>, \<open>lo\<close> and completes, one that fails after the same two deltas, and a
  signed-in free-tier user sending one turn from one address.
\<close>

definition exampleClock :: Clock where
  "exampleClock =
     \<lparr>dateNow = 1000, fullYear = 2024, month = 11,
      localMidnight = (\<lambda>y m d. ((y - 1970) * 12 + m) * 2592000000 + (d - 1) * 86400000)\<rparr>"

definition exampleUsage :: TokenUsage where
  "exampleUsage = \<lparr>prompt_tokens = 3, completion_tokens = 2, total_tokens = 5\<rparr>"

definition completingOpenAI :: OpenAIClient where
  "completingOpenAI =
     (\<lambda>request. Inr (AsyncIterable
        [\<lparr>delta_content = Some ''Hel'', chunk_usage = None\<rparr>,
         \<lparr>delta_content = Some ''lo'', chunk_usage = None\<rparr>,
         \<lparr>delta_content = None, chunk_usage = Some exampleUsage\<rparr>] None))"

definition failingOpenAI :: OpenAIClient where
  "failingOpenAI =
     (\<lambda>request. Inr (AsyncIterable
        [\<lparr>delta_content = Some ''Hel'', chunk_usage = None\<rparr>,
         \<lparr>delta_content = Some ''lo'', chunk_usage = None\<rparr>]
        (Some (Error ''upstream failure''))))"

definition completingAnthropic :: AnthropicClient where
  "completingAnthropic =
     (\<lambda>request. Inr
        \<lparr>events = AsyncIterable
                    [OtherEvent, ContentBlockDelta (TextDelta ''Hel''),
                     ContentBlockDelta OtherDelta, ContentBlockDelta (TextDelta ''lo'')] None,
         finalMessage = Inr (3, 2)\<rparr>)"

definition completingGoogle :: GoogleClient where
  "completingGoogle =
     (\<lambda>request. Inr
        \<lparr>chunks = AsyncIterable [Inr ''Hel'', Inr [], Inr ''lo''] None,
         response = Inr (Some \<lparr>promptTokenCount = Some 3, candidatesTokenCount = Some 2,
                                totalTokenCount = Some 5\<rparr>)\<rparr>)"

definition exampleConfig :: AIProviderConfig where
  "exampleConfig = \<lparr>apiKey = ''key'', model = ''gpt-3.5-turbo'', maxTokens = None\<rparr>"

definition exampleEnv :: "OpenAIClient \<Rightarrow> DbResult \<Rightarrow> Environment" where
  "exampleEnv client inserted =
     \<lparr>clock = exampleClock, retryNow = 1001, createClientFailure = None,
      authUser = Some ''user-1'', profile = ProfileRow (Some Free),
      apiKeyFor = (\<lambda>p. Some ''key''),
      vendors = \<lparr>openaiClient = client,
                 anthropicClient = (\<lambda>request. Inl (Error ''not configured'')),
                 googleClient = (\<lambda>request. Inl (Error ''not configured''))\<rparr>,
      store = \<lparr>insertResult = inserted, updateResult = DbOk, incrementFailure = None,
               usageReadFails = False\<rparr>,
      uuidCheck = (\<lambda>u. length u = 36),
      removePatterns = (\<lambda>message. message)\<rparr>"

definition exampleRequest :: "string \<Rightarrow> NextRequest" where
  "exampleRequest m =
     \<lparr>x_forwarded_for = None, x_real_ip = Some ''203.0.113.7'', cf_connecting_ip = None,
      true_client_ip = None,
      body = Some (ChatRequestBody
               \<lparr>raw_messages = [\<lparr>raw_role = ''user'', raw_content = ''Hi''\<rparr>],
                raw_model = m,
                raw_chatId = Some ''123e4567-e89b-12d3-a456-426614174000''\<rparr>)\<rparr>"

definition exampleRelay :: "(string \<rightharpoonup> UsageRow) \<Rightarrow> Relay" where
  "exampleRelay usage =
     \<lparr>ipRequestCounts = Map.empty, messagesTable = [], chatsTouched = [], usage_logs = usage,
      incrementCalls = [], serverLog = [], queue = [], closed = False,
      local_fullContent = [], local_totalTokens = 0\<rparr>"

definition exampleAdmission :: "OpenAIClient \<Rightarrow> DbResult \<Rightarrow> Admission" where
  "exampleAdmission client inserted =
     \<lparr>admitted_provider = OpenAIProvider exampleConfig client,
      admitted_messages = [\<lparr>role = User, content = ''Hi''\<rparr>],
      admitted_closure =
        \<lparr>user_id = ''user-1'', chosen_model = ''gpt-3.5-turbo'',
         chatId = Some ''123e4567-e89b-12d3-a456-426614174000'', provider = OpenAI,
         storage = store (exampleEnv client inserted)\<rparr>\<rparr>"

section \<open>Basic facts\<close>

lemma startsWith_Cons:
  "startsWith s (c # p) = (case s of [] \<Rightarrow> False | d # s' \<Rightarrow> d = c \<and> startsWith s' p)"
  by (cases s) (auto simp: startsWith_def)

lemma provider_iff_family: "getProviderFromModel m = Inr p \<longleftrightarrow> inFamily p m"
  by (cases p; cases "toLowerCase m")
     (auto simp: getProviderFromModel_def inFamily_def familyPrefixes_def Let_def startsWith_Cons
           split: list.splits)

lemma provider_unknown:
  assumes "\<forall>p. \<not> inFamily p m"
  shows "getProviderFromModel m = Inl (Error (''Unknown model: '' @ m))"
proof -
  have "\<not> inFamily OpenAI m" "\<not> inFamily Anthropic m" "\<not> inFamily Google m"
    using assms by blast+
  then show ?thesis
    by (simp add: getProviderFromModel_def inFamily_def familyPrefixes_def Let_def)
qed

lemma schema_models_resolve:
  "map getProviderFromModel aiModelSchema =
     [Inr OpenAI, Inr OpenAI, Inr OpenAI, Inr OpenAI,
      Inr Anthropic, Inr Anthropic, Inr Anthropic, Inr Anthropic,
      Inr Google, Inr Google, Inr Google]"
  by code_simp

text \<open>
  On the validated enumeration the tier module's \<open>getModelProvider\<close> names the same
  vendor; outside the families it falls back to OpenAI where the factory throws.
\<close>

lemma getModelProvider_on_schema:
  "list_all (\<lambda>m. getProviderFromModel m = Inr (getModelProvider m)) aiModelSchema \<and>
   getModelProvider ''llama-3'' = OpenAI"
  by code_simp

subsection \<open>The limiter across successive calls\<close>

lemma checkIPRateLimitSeq_append:
  "checkIPRateLimitSeq (ts @ us) ip st =
     (let (ra, s1) = checkIPRateLimitSeq ts ip st;
          (rb, s2) = checkIPRateLimitSeq us ip s1
      in (ra @ rb, s2))"
  by (induction ts arbitrary: st) (auto simp: Let_def split: prod.splits)

lemma seq_in_window:
  "st ip = Some \<lparr>count = c, windowResetAt = r\<rparr> \<Longrightarrow> \<forall>t\<in>set ts. t \<le> r \<Longrightarrow>
   map allowed (fst (checkIPRateLimitSeq ts ip st)) = map (\<lambda>i. c + int i < 100) [0..<length ts] \<and>
   (\<exists>c'. snd (checkIPRateLimitSeq ts ip st) ip = Some \<lparr>count = c', windowResetAt = r\<rparr>)"
proof (induction ts arbitrary: c st)
  case Nil
  then show ?case by simp
next
  case (Cons t ts)
  show ?case
  proof (cases "c \<ge> 100")
    case True
    then have st: "checkIPRateLimit t ip st =
        (\<lparr>allowed = False, remaining = 0, limit = IP_RATE_LIMIT, resetAt = r,
          error = Some ''Too many requests. Please try again later.''\<rparr>, st)"
      using Cons.prems by (simp add: checkIPRateLimit_def IP_RATE_LIMIT_def)
    have ih: "map allowed (fst (checkIPRateLimitSeq ts ip st)) =
                map (\<lambda>i. c + int i < 100) [0..<length ts] \<and>
              (\<exists>c'. snd (checkIPRateLimitSeq ts ip st) ip = Some \<lparr>count = c', windowResetAt = r\<rparr>)"
      by (rule Cons.IH) (use Cons.prems in simp_all)
    have m: "map (\<lambda>i. c + int i < 100) [0..<length (t # ts)] =
               False # map (\<lambda>i. c + int i < 100) [0..<length ts]"
      using True by (simp add: upt_conv_Cons map_Suc_upt[symmetric] del: upt_Suc)
    show ?thesis using st ih True unfolding m by (simp add: split_beta Let_def)
  next
    case False
    let ?s' = "st(ip \<mapsto> \<lparr>count = c + 1, windowResetAt = r\<rparr>)"
    have st: "checkIPRateLimit t ip st =
        (\<lparr>allowed = True, remaining = IP_RATE_LIMIT - (c + 1), limit = IP_RATE_LIMIT,
          resetAt = r, error = None\<rparr>, ?s')"
      using Cons.prems False by (simp add: checkIPRateLimit_def IP_RATE_LIMIT_def)
    have ih: "map allowed (fst (checkIPRateLimitSeq ts ip ?s')) =
                map (\<lambda>i. (c + 1) + int i < 100) [0..<length ts] \<and>
              (\<exists>c'. snd (checkIPRateLimitSeq ts ip ?s') ip = Some \<lparr>count = c', windowResetAt = r\<rparr>)"
      by (rule Cons.IH) (use Cons.prems in simp_all)
    have m: "map (\<lambda>i. c + int i < 100) [0..<length (t # ts)] =
               True # map (\<lambda>i. (c + 1) + int i < 100) [0..<length ts]"
      using False by (simp add: upt_conv_Cons map_Suc_upt[symmetric] add.assoc del: upt_Suc)
    show ?thesis using st ih unfolding m by (simp add: split_beta Let_def)
  qed
qed

lemma first_call_of_window:
  "windowStarts st ip t \<Longrightarrow>
   checkIPRateLimit t ip st =
     (\<lparr>allowed = True, remaining = IP_RATE_LIMIT - 1, limit = IP_RATE_LIMIT,
       resetAt = t + IP_RATE_WINDOW, error = None\<rparr>,
      st(ip \<mapsto> \<lparr>count = 1, windowResetAt = t + IP_RATE_WINDOW\<rparr>))"
  by (auto simp: windowStarts_def checkIPRateLimit_def split: option.splits)

lemma one_window:
  assumes "windowStarts st ip t0" "\<forall>t\<in>set ts. t \<le> t0 + IP_RATE_WINDOW"
  shows "map allowed (fst (checkIPRateLimitSeq (t0 # ts) ip st)) =
           map (\<lambda>i. i < 100) [0..<Suc (length ts)] \<and>
         (\<exists>c'. snd (checkIPRateLimitSeq (t0 # ts) ip st) ip =
                  Some \<lparr>count = c', windowResetAt = t0 + IP_RATE_WINDOW\<rparr>)"
proof -
  let ?s' = "st(ip \<mapsto> \<lparr>count = 1, windowResetAt = t0 + IP_RATE_WINDOW\<rparr>)"
  have w: "map allowed (fst (checkIPRateLimitSeq ts ip ?s')) =
             map (\<lambda>i. 1 + int i < 100) [0..<length ts] \<and>
           (\<exists>c'. snd (checkIPRateLimitSeq ts ip ?s') ip =
                    Some \<lparr>count = c', windowResetAt = t0 + IP_RATE_WINDOW\<rparr>)"
    using seq_in_window[of ?s' ip 1 "t0 + IP_RATE_WINDOW" ts] assms(2) by simp
  have m: "map (\<lambda>i. i < 100) [0..<Suc (length ts)] =
             True # map (\<lambda>i. 1 + int i < 100) [0..<length ts]"
    by (auto simp add: upt_conv_Cons map_Suc_upt[symmetric] simp del: upt_Suc)
  show ?thesis
    using first_call_of_window[OF assms(1)] w unfolding m by (simp add: split_beta Let_def)
qed

text \<open>
  Calls for other identifiers and the periodic sweep leave the decisions for an identifier
  as they are, as long as the clock does not run backwards.
\<close>

lemma other_identifier_untouched:
  "other \<noteq> ip \<Longrightarrow> snd (checkIPRateLimit t other st) ip = st ip"
  by (simp add: checkIPRateLimit_def split: option.splits)

lemma cleanup_keeps_decision:
  assumes "now \<le> t"
  shows "fst (checkIPRateLimit t ip (cleanupExpiredEntries now st)) = fst (checkIPRateLimit t ip st) \<and>
         snd (checkIPRateLimit t ip (cleanupExpiredEntries now st)) ip =
           snd (checkIPRateLimit t ip st) ip"
  using assms
  by (auto simp: checkIPRateLimit_def cleanupExpiredEntries_def split: option.splits)

section \<open>Claims about the guards and the factory\<close>

text \<open>
  C5. For every tier with a finite ceiling (one that is not \<open>-1\<close>),
  \<open>checkMessageQuota\<close> allows exactly when the usage is below the ceiling, with
  \<open>remaining = ceiling - used\<close> when it allows and \<open>remaining = 0\<close> when it denies; for a
  tier whose ceiling is \<open>-1\<close> it allows with \<open>remaining = -1\<close> whatever the usage.
\<close>

theorem checkMessageQuota_decision:
  "(messagesPerMonth (TIERS tier) \<noteq> - 1 \<longrightarrow>
      allowed (checkMessageQuota clk tier used) = (used < messagesPerMonth (TIERS tier)) \<and>
      remaining (checkMessageQuota clk tier used) =
        (if used < messagesPerMonth (TIERS tier) then messagesPerMonth (TIERS tier) - used else 0)) \<and>
   (messagesPerMonth (TIERS tier) = - 1 \<longrightarrow>
      allowed (checkMessageQuota clk tier used) \<and>
      remaining (checkMessageQuota clk tier used) = - 1)"
  by (auto simp: checkMessageQuota_def Let_def isUnlimited_def getMessageLimit_def)

theorem checkMessageQuota_decision_witness:
  "messagesPerMonth (TIERS Free) \<noteq> - 1 \<and>
   allowed (checkMessageQuota exampleClock Free 49) \<and>
   remaining (checkMessageQuota exampleClock Free 49) = 1 \<and>
   \<not> allowed (checkMessageQuota exampleClock Free 50) \<and>
   remaining (checkMessageQuota exampleClock Free 50) = 0 \<and>
   messagesPerMonth (TIERS Enterprise) = - 1 \<and>
   allowed (checkMessageQuota exampleClock Enterprise 1000) \<and>
   remaining (checkMessageQuota exampleClock Enterprise 1000) = - 1"
  using checkMessageQuota_decision [of Free exampleClock 49]
        checkMessageQuota_decision [of Free exampleClock 50]
        checkMessageQuota_decision [of Enterprise exampleClock 1000]
  by simp

text \<open>
  C9. \<open>getProviderFromModel\<close> resolves a model identifier by a case-insensitive prefix
  match against the vendors' families: it returns a vendor exactly when the lower-cased
  identifier starts with one of that vendor's prefixes (\<open>gpt\<close>, \<open>o1\<close>, \<open>o3\<close> for
  OpenAI, \<open>claude\<close> for Anthropic, \<open>gemini\<close> for Google); identifiers that differ only in
  case resolve alike; every member of the validated model enumeration resolves to a vendor;
  and an identifier with none of the prefixes raises the unknown-model error instead of
  falling back to a vendor.
\<close>

theorem getProviderFromModel_families:
  "(getProviderFromModel m = Inr p \<longleftrightarrow> inFamily p m) \<and>
   (toLowerCase m = toLowerCase m' \<longrightarrow>
      (getProviderFromModel m = Inr p \<longleftrightarrow> getProviderFromModel m' = Inr p)) \<and>
   (\<forall>known\<in>set aiModelSchema. \<exists>v. getProviderFromModel known = Inr v) \<and>
   ((\<forall>v. \<not> inFamily v m) \<longrightarrow>
      getProviderFromModel m = Inl (Error (''Unknown model: '' @ m)))"
proof -
  have ci: "toLowerCase m = toLowerCase m' \<longrightarrow>
      (getProviderFromModel m = Inr p \<longleftrightarrow> getProviderFromModel m' = Inr p)"
    by (simp add: provider_iff_family inFamily_def)
  have "list_all (\<lambda>r. \<exists>v. r = Inr v) (map getProviderFromModel aiModelSchema)"
    unfolding schema_models_resolve by simp
  then have total: "\<forall>known\<in>set aiModelSchema. \<exists>v. getProviderFromModel known = Inr v"
    by (simp add: list_all_iff)
  show ?thesis
    using ci total provider_iff_family[of m p] provider_unknown[of m] by blast
qed

theorem getProviderFromModel_families_witness:
  "inFamily OpenAI ''GPT-4'' \<and>
   getProviderFromModel ''GPT-4'' = Inr OpenAI \<and>
   toLowerCase ''GPT-4'' = toLowerCase ''gpt-4'' \<and>
   getProviderFromModel ''gpt-4'' = Inr OpenAI \<and>
   ''gemini-1.5-pro'' \<in> set aiModelSchema \<and>
   (\<exists>v. getProviderFromModel ''gemini-1.5-pro'' = Inr v) \<and>
   (\<forall>v. \<not> inFamily v ''llama-3'') \<and>
   getProviderFromModel ''llama-3'' = Inl (Error ''Unknown model: llama-3'')"
proof -
  have f: "inFamily OpenAI ''GPT-4''" by code_simp
  have l: "toLowerCase ''GPT-4'' = toLowerCase ''gpt-4''" by code_simp
  have k: "''gemini-1.5-pro'' \<in> set aiModelSchema" by (simp add: aiModelSchema_def)
  have u: "\<forall>v. \<not> inFamily v ''llama-3''"
  proof
    have n: "\<not> inFamily OpenAI ''llama-3''" "\<not> inFamily Anthropic ''llama-3''"
      "\<not> inFamily Google ''llama-3''" by code_simp+
    fix v show "\<not> inFamily v ''llama-3''" using n by (cases v) simp_all
  qed
  show ?thesis
    using f l k u
      getProviderFromModel_families [of "''GPT-4''" OpenAI "''gpt-4''"]
      getProviderFromModel_families [of "''llama-3''" OpenAI "''llama-3''"]
    by auto
qed

text \<open>
  C7. For one identifier, a call that starts a window (no entry, or the entry's reset time
  has passed) and the calls that follow while the clock has not passed that window's reset
  time are allowed up to the hundredth and denied from the hundred-and-first on; the first
  call after the reset time restarts the counter at 1 with a new window of fifteen minutes,
  in which again exactly the first hundred calls are allowed.
\<close>

theorem checkIPRateLimit_window:
  assumes "windowStarts st ip t0"
      and "\<forall>t\<in>set ts. t \<le> t0 + IP_RATE_WINDOW"
      and "t1 > t0 + IP_RATE_WINDOW"
      and "\<forall>t\<in>set ts'. t \<le> t1 + IP_RATE_WINDOW"
  shows "map allowed (fst (checkIPRateLimitSeq ((t0 # ts) @ (t1 # ts')) ip st)) =
           map (\<lambda>i. int i < IP_RATE_LIMIT) [0..<Suc (length ts)] @
           map (\<lambda>i. int i < IP_RATE_LIMIT) [0..<Suc (length ts')] \<and>
         snd (checkIPRateLimitSeq ((t0 # ts) @ [t1]) ip st) ip =
           Some \<lparr>count = 1, windowResetAt = t1 + IP_RATE_WINDOW\<rparr>"
proof -
  obtain ra s1 where a: "checkIPRateLimitSeq (t0 # ts) ip st = (ra, s1)" by force
  from one_window[OF assms(1,2)] a obtain c' where
    ra: "map allowed ra = map (\<lambda>i. i < 100) [0..<Suc (length ts)]"
    and s1: "s1 ip = Some \<lparr>count = c', windowResetAt = t0 + IP_RATE_WINDOW\<rparr>" by auto
  have ws: "windowStarts s1 ip t1" using s1 assms(3) by (simp add: windowStarts_def)
  from one_window[OF ws assms(4)] have
    rb: "map allowed (fst (checkIPRateLimitSeq (t1 # ts') ip s1)) =
           map (\<lambda>i. i < 100) [0..<Suc (length ts')]" by blast
  have first: "map allowed (fst (checkIPRateLimitSeq ((t0 # ts) @ (t1 # ts')) ip st)) =
           map (\<lambda>i. int i < IP_RATE_LIMIT) [0..<Suc (length ts)] @
           map (\<lambda>i. int i < IP_RATE_LIMIT) [0..<Suc (length ts')]"
    unfolding checkIPRateLimitSeq_append a using ra rb by (simp add: split_beta IP_RATE_LIMIT_def)
  have second: "snd (checkIPRateLimitSeq ((t0 # ts) @ [t1]) ip st) ip =
           Some \<lparr>count = 1, windowResetAt = t1 + IP_RATE_WINDOW\<rparr>"
    unfolding checkIPRateLimitSeq_append a
    by (simp add: first_call_of_window[OF ws])
  show ?thesis using first second by blast
qed

theorem checkIPRateLimit_window_witness:
  "windowStarts Map.empty ''203.0.113.7'' 0 \<and>
   list_all (\<lambda>t. t \<le> 0 + IP_RATE_WINDOW) (replicate 100 5) \<and>
   900001 > 0 + IP_RATE_WINDOW \<and>
   list_all (\<lambda>t. t \<le> 900001 + IP_RATE_WINDOW) (replicate 100 900002) \<and>
   map allowed (fst (checkIPRateLimitSeq ((0 # replicate 100 5) @ (900001 # replicate 100 900002))
                       ''203.0.113.7'' Map.empty)) =
     replicate 100 True @ [False] @ replicate 100 True @ [False] \<and>
   snd (checkIPRateLimitSeq ((0 # replicate 100 5) @ [900001]) ''203.0.113.7'' Map.empty)
     ''203.0.113.7'' = Some \<lparr>count = 1, windowResetAt = 900001 + IP_RATE_WINDOW\<rparr>"
proof -
  have h1: "windowStarts Map.empty ''203.0.113.7'' 0" by (simp add: windowStarts_def)
  have h2: "\<forall>t\<in>set (replicate 100 5). t \<le> 0 + IP_RATE_WINDOW"
    by (simp add: IP_RATE_WINDOW_def)
  have h3: "900001 > 0 + IP_RATE_WINDOW" by (simp add: IP_RATE_WINDOW_def)
  have h4: "\<forall>t\<in>set (replicate 100 900002). t \<le> 900001 + IP_RATE_WINDOW"
    by (simp add: IP_RATE_WINDOW_def)
  have p: "map (\<lambda>i. int i < IP_RATE_LIMIT) [0..<Suc (length (replicate 100 (5::int)))] = replicate 100 True @ [False]"
     "map (\<lambda>i. int i < IP_RATE_LIMIT) [0..<Suc (length (replicate 100 (900002::int)))] = replicate 100 True @ [False]"
    by code_simp+
  show ?thesis
    using checkIPRateLimit_window [OF h1 h2 h3 h4] h1 h2 h3 h4 unfolding p
    by (simp add: list_all_iff)
qed

section \<open>Adapters deliver what the vendor produced\<close>

lemma bindIO_returnIO [simp]: "bindIO (returnIO x) f = f x"
  by (rule ext) (simp add: bindIO_def returnIO_def)

lemma bindIO_throwIO [simp]: "bindIO (throwIO e) f = throwIO e"
  by (rule ext) (simp add: bindIO_def throwIO_def)

lemma tryCatch_throwIO [simp]: "tryCatch (throwIO e) h = h e"
  by (rule ext) (simp add: tryCatch_def throwIO_def)

lemma bindIO_assoc: "bindIO (bindIO m f) g = bindIO m (\<lambda>x. bindIO (f x) g)"
  by (rule ext) (simp add: bindIO_def split: prod.splits sum.splits)

lemma forAwait_Cons:
  "forAwait f (item # rest) failure acc = bindIO (f item acc) (forAwait f rest failure)"
  by (rule ext) (simp add: bindIO_def split: prod.splits sum.splits)

lemma forAwait_Nil:
  "forAwait f [] failure acc = (case failure of None \<Rightarrow> returnIO acc | Some e \<Rightarrow> throwIO e)"
  by (rule ext) (simp add: returnIO_def throwIO_def split: option.splits)

lemma openai_loop:
  "forAwait (openaiLoopBody cb) cs failure (fc, u) =
     thenIO (deliverTokens cb (openaiTokens cs))
       (case failure of
          None \<Rightarrow> returnIO (fc @ concat (openaiTokens cs), openaiUsage u cs)
        | Some e \<Rightarrow> throwIO e)"
proof (induction cs arbitrary: fc u)
  case Nil
  then show ?case
    by (simp add: forAwait_Nil openaiTokens_def openaiUsage_def thenIO_def split: option.splits)
next
  case (Cons c cs)
  show ?case
    unfolding forAwait_Cons
    by (simp add: openaiLoopBody_def Let_def Cons.IH openaiTokens_def openaiUsage_def
          thenIO_def bindIO_assoc split: option.splits cong: option.case_cong)
qed

lemma anthropic_loop:
  "forAwait (anthropicLoopBody cb) es failure fc =
     thenIO (deliverTokens cb (anthropicTokens es))
       (case failure of
          None \<Rightarrow> returnIO (fc @ concat (anthropicTokens es))
        | Some e \<Rightarrow> throwIO e)"
proof (induction es arbitrary: fc)
  case Nil
  then show ?case by (simp add: forAwait_Nil thenIO_def split: option.splits)
next
  case (Cons ev es)
  show ?case
  proof (cases ev)
    case (ContentBlockDelta d)
    then show ?thesis
      unfolding forAwait_Cons
      by (cases d)
         (simp_all add: anthropicLoopBody_def Cons.IH thenIO_def bindIO_assoc
            cong: option.case_cong)
  next
    case OtherEvent
    then show ?thesis
      unfolding forAwait_Cons
      by (simp add: anthropicLoopBody_def Cons.IH thenIO_def bindIO_assoc cong: option.case_cong)
  qed
qed

lemma google_loop:
  "forAwait (googleLoopBody cb) cs failure fc =
     thenIO (deliverTokens cb (googleTokens cs))
       (case googleTextFailure cs of
          Some e \<Rightarrow> throwIO e
        | None \<Rightarrow>
           (case failure of
              None \<Rightarrow> returnIO (fc @ concat (googleTokens cs))
            | Some e \<Rightarrow> throwIO e))"
proof (induction cs arbitrary: fc rule: googleTokens.induct)
  case 1
  then show ?case by (simp add: forAwait_Nil thenIO_def split: option.splits)
next
  case (2 e cs)
  show ?case unfolding forAwait_Cons
    by (simp add: googleLoopBody_def thenIO_def)
next
  case (3 t cs)
  show ?case unfolding forAwait_Cons
    by (simp add: googleLoopBody_def "3.IH" thenIO_def bindIO_assoc cong: option.case_cong)
qed

lemma streamChat_deliver:
  "streamChat aiProvider msgs cb = deliver cb (generation aiProvider msgs)"
proof (cases aiProvider)
  case (OpenAIProvider config client)
  show ?thesis
    unfolding OpenAIProvider
    by (auto simp: OpenAIProvider_streamChat_def deliver_def openai_loop thenIO_def bindIO_assoc
        intro!: arg_cong2[where f=tryCatch] arg_cong2[where f=bindIO]
        split: sum.splits option.splits)
next
  case (AnthropicProvider config client)
  show ?thesis
    unfolding AnthropicProvider
    by (auto simp: AnthropicProvider_streamChat_def deliver_def anthropic_loop thenIO_def bindIO_assoc
        intro!: arg_cong2[where f=tryCatch] arg_cong2[where f=bindIO]
        split: sum.splits option.splits)
next
  case (GoogleProvider config client)
  show ?thesis
    unfolding GoogleProvider
    by (auto simp: GoogleProvider_streamChat_def deliver_def google_loop thenIO_def bindIO_assoc
        intro!: arg_cong2[where f=tryCatch] arg_cong2[where f=bindIO]
        split: sum.splits option.splits)
qed

subsection \<open>With recording callbacks\<close>

lemma recorder_tokens: "deliverTokens recorder toks tr = (Inr (), tr @ map OnToken toks)"
  by (induction toks arbitrary: tr)
     (simp_all add: returnIO_def thenIO_def bindIO_def recorder_def)

lemma recorder_deliver:
  "deliver recorder g tr = (Inr (), tr @ map OnToken (emitted g) @ [terminalCall g])"
  by (simp add: deliver_def tryCatch_def thenIO_def bindIO_def recorder_tokens terminalCall_def
        throwIO_def split: sum.splits)
     (simp_all add: recorder_def)

lemma invocations_eq:
  "invocations aiProvider msgs =
     map OnToken (emitted (generation aiProvider msgs)) @ [terminalCall (generation aiProvider msgs)]"
  by (simp add: invocations_def streamChat_deliver recorder_deliver)

lemma tokenTexts_tokens [simp]: "tokenTexts (map OnToken toks @ rest) = toks @ tokenTexts rest"
  by (induction toks) simp_all

lemma completedTexts_tokens [simp]: "completedTexts (map OnToken toks @ rest) = completedTexts rest"
  by (induction toks) simp_all

lemma terminal_filter_tokens [simp]:
  "filter isTerminalCall (map OnToken toks @ rest) = filter isTerminalCall rest"
  by (induction toks) simp_all

lemma tokenTexts_invocations:
  "tokenTexts (invocations aiProvider msgs) = emitted (generation aiProvider msgs)"
  by (simp add: invocations_eq terminalCall_def split: sum.splits)

lemma onError_invoked:
  assumes "OnError e \<in> set (invocations aiProvider msgs)"
  shows "\<exists>e'. ending (generation aiProvider msgs) = Inl e'"
  using assms by (auto simp: invocations_eq terminalCall_def split: sum.splits)

lemma onComplete_invoked:
  assumes "OnComplete txt u \<in> set (invocations aiProvider msgs)"
  shows "ending (generation aiProvider msgs) = Inr u \<and>
         txt = concat (emitted (generation aiProvider msgs))"
  using assms by (auto simp: invocations_eq terminalCall_def split: sum.splits)

text \<open>
  C2. For every turn sequence (so in particular for every one that ends in a non-empty user
  turn) and each of the three adapters, with callbacks that return normally: \<open>streamChat\<close>
  returns without throwing, exactly one of its invocations is a terminal callback
  (\<open>onComplete\<close> or \<open>onError\<close>) and it is the last one, and when \<open>onComplete\<close> is
  invoked its full-content argument is the concatenation, in order, of the strings passed
  to \<open>onToken\<close>.
\<close>

theorem streamChat_one_terminal_callback:
  "fst (streamChat aiProvider msgs recorder []) = Inr () \<and>
   length (filter isTerminalCall (invocations aiProvider msgs)) = 1 \<and>
   isTerminalCall (last (invocations aiProvider msgs)) \<and>
   (completedTexts (invocations aiProvider msgs) = [] \<or>
    completedTexts (invocations aiProvider msgs) =
      [concat (tokenTexts (invocations aiProvider msgs))])"
proof -
  have r: "fst (streamChat aiProvider msgs recorder []) = Inr ()"
    by (simp add: streamChat_deliver recorder_deliver)
  show ?thesis
    unfolding invocations_eq using r
    by (simp add: terminalCall_def split: sum.splits)
qed

theorem streamChat_one_terminal_callback_witness:
  "endsWithUserTurn [\<lparr>role = User, content = ''Hi''\<rparr>] \<and>
   invocations (OpenAIProvider exampleConfig completingOpenAI) [\<lparr>role = User, content = ''Hi''\<rparr>] =
     [OnToken ''Hel'', OnToken ''lo'', OnComplete ''Hello'' exampleUsage] \<and>
   invocations (AnthropicProvider exampleConfig completingAnthropic) [\<lparr>role = User, content = ''Hi''\<rparr>] =
     [OnToken ''Hel'', OnToken ''lo'', OnComplete ''Hello'' exampleUsage] \<and>
   invocations (GoogleProvider exampleConfig completingGoogle) [\<lparr>role = User, content = ''Hi''\<rparr>] =
     [OnToken ''Hel'', OnToken ''lo'', OnComplete ''Hello'' exampleUsage] \<and>
   invocations (OpenAIProvider exampleConfig failingOpenAI) [\<lparr>role = User, content = ''Hi''\<rparr>] =
     [OnToken ''Hel'', OnToken ''lo'', OnError (Error ''upstream failure'')] \<and>
   length (filter isTerminalCall
     (invocations (OpenAIProvider exampleConfig completingOpenAI) [\<lparr>role = User, content = ''Hi''\<rparr>])) = 1 \<and>
   completedTexts
     (invocations (OpenAIProvider exampleConfig completingOpenAI) [\<lparr>role = User, content = ''Hi''\<rparr>]) =
     [concat (tokenTexts
        (invocations (OpenAIProvider exampleConfig completingOpenAI) [\<lparr>role = User, content = ''Hi''\<rparr>]))]"
proof -
  have v: "endsWithUserTurn [\<lparr>role = User, content = ''Hi''\<rparr>]" by code_simp
  have a: "invocations (OpenAIProvider exampleConfig completingOpenAI) [\<lparr>role = User, content = ''Hi''\<rparr>] =
     [OnToken ''Hel'', OnToken ''lo'', OnComplete ''Hello'' exampleUsage]" by code_simp
  have b: "invocations (AnthropicProvider exampleConfig completingAnthropic) [\<lparr>role = User, content = ''Hi''\<rparr>] =
     [OnToken ''Hel'', OnToken ''lo'', OnComplete ''Hello'' exampleUsage]" by code_simp
  have c: "invocations (GoogleProvider exampleConfig completingGoogle) [\<lparr>role = User, content = ''Hi''\<rparr>] =
     [OnToken ''Hel'', OnToken ''lo'', OnComplete ''Hello'' exampleUsage]" by code_simp
  have d: "invocations (OpenAIProvider exampleConfig failingOpenAI) [\<lparr>role = User, content = ''Hi''\<rparr>] =
     [OnToken ''Hel'', OnToken ''lo'', OnError (Error ''upstream failure'')]" by code_simp
  show ?thesis
    using v a b c d
      streamChat_one_terminal_callback
        [of "OpenAIProvider exampleConfig completingOpenAI" "[\<lparr>role = User, content = ''Hi''\<rparr>]"]
    by simp
qed

text \<open>
  The guard of the Google adapter: when no turn is left after removing system turns, or the
  last one is empty or blank, the adapter reports the failure whatever the vendor would
  answer. The guard does not look at the role of that turn.
\<close>

lemma google_rejects_missing_or_blank_last_turn:
  assumes "lastMessage msgs = None \<or> (\<exists>m. lastMessage msgs = Some m \<and> trim (content m) = [])"
  shows "invocations (GoogleProvider config client) msgs =
           [OnError (Error ''No user message to send to Gemini'')]"
  using assms
  by (auto simp: invocations_eq terminalCall_def split: option.splits)

text \<open>
  C6. The turn sequence with the single turn \<open>{assistant, "Hi"}\<close> has no trailing user
  turn, and the one with the single turn \<open>{user, ""}\<close> has an empty one. On both, the
  OpenAI and Anthropic adapters send the request and relay the vendor's two deltas and its
  completion; the Google adapter does so on the first and reports the failure on the second.
  The handler passes such sequences on: a request whose only turn is an assistant turn, or a
  user turn of two spaces (which sanitization trims to nothing), is admitted and streamed.
\<close>

theorem adapters_forward_without_user_turn:
  "\<not> endsWithUserTurn [\<lparr>role = Assistant, content = ''Hi''\<rparr>] \<and>
   invocations (OpenAIProvider exampleConfig completingOpenAI) [\<lparr>role = Assistant, content = ''Hi''\<rparr>] =
     [OnToken ''Hel'', OnToken ''lo'', OnComplete ''Hello'' exampleUsage] \<and>
   invocations (AnthropicProvider exampleConfig completingAnthropic) [\<lparr>role = Assistant, content = ''Hi''\<rparr>] =
     [OnToken ''Hel'', OnToken ''lo'', OnComplete ''Hello'' exampleUsage] \<and>
   invocations (GoogleProvider exampleConfig completingGoogle) [\<lparr>role = Assistant, content = ''Hi''\<rparr>] =
     [OnToken ''Hel'', OnToken ''lo'', OnComplete ''Hello'' exampleUsage] \<and>
   \<not> endsWithUserTurn [\<lparr>role = User, content = []\<rparr>] \<and>
   invocations (OpenAIProvider exampleConfig completingOpenAI) [\<lparr>role = User, content = []\<rparr>] =
     [OnToken ''Hel'', OnToken ''lo'', OnComplete ''Hello'' exampleUsage] \<and>
   invocations (AnthropicProvider exampleConfig completingAnthropic) [\<lparr>role = User, content = []\<rparr>] =
     [OnToken ''Hel'', OnToken ''lo'', OnComplete ''Hello'' exampleUsage] \<and>
   invocations (GoogleProvider exampleConfig completingGoogle) [\<lparr>role = User, content = []\<rparr>] =
     [OnError (Error ''No user message to send to Gemini'')] \<and>
   payload (fst (POST (exampleEnv completingOpenAI DbOk)
                   ((exampleRequest ''gpt-3.5-turbo'')
                      \<lparr>body := Some (ChatRequestBody
                          \<lparr>raw_messages = [\<lparr>raw_role = ''assistant'', raw_content = ''Hi''\<rparr>],
                           raw_model = ''gpt-3.5-turbo'', raw_chatId = None\<rparr>)\<rparr>)
                   (exampleRelay Map.empty))) =
     EventStream [TokenEvent ''Hel'', TokenEvent ''lo'', DoneEvent exampleUsage] \<and>
   payload (fst (POST (exampleEnv completingOpenAI DbOk)
                   ((exampleRequest ''gpt-3.5-turbo'')
                      \<lparr>body := Some (ChatRequestBody
                          \<lparr>raw_messages = [\<lparr>raw_role = ''user'', raw_content = ''  ''\<rparr>],
                           raw_model = ''gpt-3.5-turbo'', raw_chatId = None\<rparr>)\<rparr>)
                   (exampleRelay Map.empty))) =
     EventStream [TokenEvent ''Hel'', TokenEvent ''lo'', DoneEvent exampleUsage]"
  by code_simp

section \<open>The relay's callbacks\<close>

lemma relay_tokens:
  "\<not> closed s \<Longrightarrow>
   deliverTokens (relayCallbacks c) toks s =
     (Inr (), s\<lparr>queue := queue s @ map TokenEvent toks,
                local_fullContent := local_fullContent s @ concat toks\<rparr>)"
proof (induction toks arbitrary: s)
  case Nil
  then show ?case by (simp add: returnIO_def)
next
  case (Cons t toks)
  let ?s1 = "s\<lparr>local_fullContent := local_fullContent s @ t, queue := queue s @ [TokenEvent t]\<rparr>"
  have step: "onToken (relayCallbacks c) t s = (Inr (), ?s1)"
    using Cons.prems by (simp add: relayCallbacks_def relay_onToken_def enqueue_def)
  have "\<not> closed ?s1" using Cons.prems by simp
  from Cons.IH[OF this] step show ?case
    by (simp add: thenIO_def bindIO_def)
qed

lemma relay_tokens_fresh:
  "deliverTokens (relayCallbacks c) toks
     (s\<lparr>queue := [], closed := False, local_fullContent := [], local_totalTokens := 0\<rparr>) =
   (Inr (), streamed s toks)"
proof -
  let ?s0 = "s\<lparr>queue := [], closed := False, local_fullContent := [], local_totalTokens := 0\<rparr>"
  have open0: "\<not> closed ?s0" by simp
  have "?s0\<lparr>queue := queue ?s0 @ map TokenEvent toks,
             local_fullContent := local_fullContent ?s0 @ concat toks\<rparr> = streamed s toks"
    unfolding streamed_def by (rule Relay.equality) simp_all
  with relay_tokens[OF open0, of c toks] show ?thesis by simp
qed

lemma streamed_fields [simp]:
  "queue (streamed s toks) = map TokenEvent toks"
  "closed (streamed s toks) = False"
  "messagesTable (streamed s toks) = messagesTable s"
  "chatsTouched (streamed s toks) = chatsTouched s"
  "usage_logs (streamed s toks) = usage_logs s"
  "incrementCalls (streamed s toks) = incrementCalls s"
  "serverLog (streamed s toks) = serverLog s"
  "ipRequestCounts (streamed s toks) = ipRequestCounts s"
  by (simp_all add: streamed_def)

lemma relay_onError_open:
  "\<not> closed s \<Longrightarrow>
   relay_onError e s =
     (Inr (), s\<lparr>serverLog := serverLog s @ [''Chat stream error''],
                queue := queue s @ [ErrorEvent ''An internal error occurred while generating the response''],
                closed := True\<rparr>)"
  by (simp add: relay_onError_def thenIO_def bindIO_def logger_def enqueue_def close_def)

lemma relay_onComplete_shape:
  assumes "\<not> closed s"
  shows "closed (snd (relay_onComplete c txt u s)) \<and>
         (\<exists>t. isTerminalEvent t \<and> queue (snd (relay_onComplete c txt u s)) = queue s @ [t])"
  using assms
  by (auto simp: relay_onComplete_def finalize_def saveMessage_def tryCatch_def thenIO_def bindIO_def
        returnIO_def throwIO_def logger_def enqueue_def close_def incrementMessageCount_def Let_def
        split: option.splits DbResult.splits sum.splits prod.splits if_splits)

lemma relay_onComplete_insert_error:
  assumes "\<not> closed s" "chatId c = Some chat" "chat \<noteq> []" "insertResult (storage c) = DbError err"
  shows "relay_onComplete c txt u s =
     (Inr (), s\<lparr>local_totalTokens := total_tokens u,
                serverLog := serverLog s @ [''Failed to insert message in onComplete''],
                queue := queue s @ [ErrorEvent ''Failed to persist message''],
                closed := True\<rparr>)"
  using assms
  by (simp add: relay_onComplete_def finalize_def saveMessage_def tryCatch_def thenIO_def bindIO_def
        returnIO_def logger_def enqueue_def close_def)

lemma start_failed:
  assumes "ending (generation p msgs) = Inl e"
  shows "start p msgs c s =
           snd (relay_onError (asError e) (streamed s (emitted (generation p msgs))))"
proof -
  let ?g = "generation p msgs"
  let ?s0 = "s\<lparr>queue := [], closed := False, local_fullContent := [], local_totalTokens := 0\<rparr>"
  have op: "\<not> closed (streamed s (emitted ?g))" by simp
  have tk: "deliverTokens (relayCallbacks c) (emitted ?g) ?s0 = (Inr (), streamed s (emitted ?g))"
    by (rule relay_tokens_fresh)
  have d: "deliver (relayCallbacks c) ?g ?s0 =
             onError (relayCallbacks c) (asError e) (streamed s (emitted ?g))"
    by (simp add: deliver_def tryCatch_def thenIO_def bindIO_def tk assms throwIO_def)
  have d': "deliver (relayCallbacks c) ?g ?s0 = relay_onError (asError e) (streamed s (emitted ?g))"
    unfolding d by (simp add: relayCallbacks_def)
  show ?thesis
    unfolding start_def streamChat_deliver
    by (simp add: tryCatch_def d' relay_onError_open[OF op])
qed

lemma start_completed:
  assumes "ending (generation p msgs) = Inr u"
  shows "start p msgs c s =
           snd (relay_onComplete c (concat (emitted (generation p msgs))) u
                  (streamed s (emitted (generation p msgs))))"
proof -
  let ?g = "generation p msgs"
  let ?s0 = "s\<lparr>queue := [], closed := False, local_fullContent := [], local_totalTokens := 0\<rparr>"
  let ?r = "relay_onComplete c (concat (emitted ?g)) u (streamed s (emitted ?g))"
  have r: "?r = (Inr (), snd ?r)"
    by (simp add: relay_onComplete_def)
  have tk: "deliverTokens (relayCallbacks c) (emitted ?g) ?s0 = (Inr (), streamed s (emitted ?g))"
    by (rule relay_tokens_fresh)
  have i: "thenIO (deliverTokens (relayCallbacks c) (emitted ?g))
             (onComplete (relayCallbacks c) (concat (emitted ?g)) u) ?s0 =
           onComplete (relayCallbacks c) (concat (emitted ?g)) u (streamed s (emitted ?g))"
    by (simp add: thenIO_def bindIO_def tk)
  have i': "onComplete (relayCallbacks c) (concat (emitted ?g)) u (streamed s (emitted ?g)) =
              (Inr (), snd ?r)"
    using r by (simp add: relayCallbacks_def)
  have d: "deliver (relayCallbacks c) ?g ?s0 = (Inr (), snd ?r)"
    by (simp add: deliver_def tryCatch_def assms i i')
  show ?thesis
    unfolding start_def streamChat_deliver
    by (simp add: tryCatch_def d)
qed

lemma start_shape:
  "closed (start p msgs c s) \<and>
   (\<exists>t. isTerminalEvent t \<and>
        queue (start p msgs c s) = map TokenEvent (emitted (generation p msgs)) @ [t])"
proof (cases "ending (generation p msgs)")
  case (Inl e)
  have op: "\<not> closed (streamed s (emitted (generation p msgs)))" by simp
  show ?thesis
    unfolding start_failed[OF Inl] relay_onError_open[OF op]
    by simp
next
  case (Inr u)
  have op: "\<not> closed (streamed s (emitted (generation p msgs)))" by simp
  show ?thesis
    unfolding start_completed[OF Inr]
    using relay_onComplete_shape[OF op, of c "concat (emitted (generation p msgs))" u]
    by simp
qed

lemma POST_admitted:
  assumes "admission env request s = (Inr a, s1)"
  shows "POST env request s =
      (\<lparr>status = 200,
        headers = [(''Content-Type'', ''text/event-stream''), (''Cache-Control'', ''no-cache''),
                   (''Connection'', ''keep-alive'')],
        payload = EventStream
                    (queue (start (admitted_provider a) (admitted_messages a) (admitted_closure a) s1))\<rparr>,
       start (admitted_provider a) (admitted_messages a) (admitted_closure a) s1)"
  by (simp add: POST_def assms Let_def)

lemma guards_tables:
  assumes "guards env request s = (r, s1)"
  shows "messagesTable s1 = messagesTable s \<and> chatsTouched s1 = chatsTouched s \<and>
         usage_logs s1 = usage_logs s \<and> incrementCalls s1 = incrementCalls s"
  using assms
  by (auto simp: guards_def internalError_def Let_def
           split: option.splits if_splits prod.splits ProfileResult.splits)

lemma authorize_tables:
  assumes "authorize env userId tier parsed s = (r, s1)"
  shows "messagesTable s1 = messagesTable s \<and> chatsTouched s1 = chatsTouched s \<and>
         usage_logs s1 = usage_logs s \<and> incrementCalls s1 = incrementCalls s"
  using assms
  by (auto simp: authorize_def internalError_def Let_def
           split: option.splits if_splits sum.splits)

lemma admission_tables:
  assumes "admission env request s = (r, s1)"
  shows "messagesTable s1 = messagesTable s \<and> chatsTouched s1 = chatsTouched s \<and>
         usage_logs s1 = usage_logs s \<and> incrementCalls s1 = incrementCalls s"
proof (cases "guards env request s")
  case (Pair g sg)
  note gt = guards_tables[OF Pair]
  show ?thesis
  proof (cases g)
    case (Inl denied)
    with Pair assms gt show ?thesis by (simp add: admission_def)
  next
    case (Inr ut)
    obtain userId tier where ut: "ut = (userId, tier)" by (cases ut)
    show ?thesis
    proof (cases "body request")
      case None
      with Pair Inr ut assms gt show ?thesis by (auto simp: admission_def)
    next
      case (Some json)
      show ?thesis
      proof (cases "validateRequest (uuidCheck env) json")
        case (Inl issues)
        with Pair \<open>g = Inr ut\<close> ut Some assms gt show ?thesis by (auto simp: admission_def)
      next
        case (Inr parsed)
        with Pair \<open>g = Inr ut\<close> ut Some assms have "authorize env userId tier parsed sg = (r, s1)"
          by (simp add: admission_def)
        from authorize_tables[OF this] gt show ?thesis by simp
      qed
    qed
  qed
qed

lemma example_facts:
  "getProviderFromModel ''gpt-3.5-turbo'' = Inr OpenAI"
  "trim ''Hi'' = ''Hi''"
  "canAccessModel Free ''gpt-3.5-turbo''"
  "allowed (checkMessageQuota exampleClock Free 0)"
  by code_simp+

lemma example_admitted:
  "fst (admission (exampleEnv client inserted) (exampleRequest ''gpt-3.5-turbo'') (exampleRelay Map.empty)) =
     Inr (exampleAdmission client inserted)"
  by (simp add: admission_def guards_def authorize_def exampleEnv_def exampleRequest_def
        exampleRelay_def exampleAdmission_def ipCandidate_def checkIPRateLimit_def getUserUsage_def
        validateRequest_def chatRequestIssues_def chatMessageIssues_def parseRole_def
        aiModelSchema_def sanitizeChatMessage_def example_facts exampleConfig_def Let_def)

lemma example_admission:
  "admission (exampleEnv client inserted) (exampleRequest ''gpt-3.5-turbo'') (exampleRelay Map.empty) =
     (Inr (exampleAdmission client inserted),
      snd (admission (exampleEnv client inserted) (exampleRequest ''gpt-3.5-turbo'')
             (exampleRelay Map.empty)))"
  using example_admitted[of client inserted] by (metis prod.collapse)

section \<open>Claims about the response stream\<close>

text \<open>
  C1. For every request that the handler admits to streaming, the response has status 200
  and its event stream is the text deltas of the adapter as token events, in the order of
  generation, followed by exactly one terminal event (\<open>done\<close> or \<open>error\<close>); the stream
  is then closed, so that any further \<open>enqueue\<close> throws and adds nothing.
\<close>

theorem relay_stream_ends_with_one_terminal:
  assumes "admission env request s = (Inr a, s1)"
  shows "status (fst (POST env request s)) = 200 \<and>
         payload (fst (POST env request s)) = EventStream (queue (snd (POST env request s))) \<and>
         queue (snd (POST env request s)) \<noteq> [] \<and>
         butlast (queue (snd (POST env request s))) =
           map TokenEvent (tokenTexts (invocations (admitted_provider a) (admitted_messages a))) \<and>
         isTerminalEvent (last (queue (snd (POST env request s)))) \<and>
         closed (snd (POST env request s)) \<and>
         fst (enqueue ev (snd (POST env request s))) = Inl (Error ''TypeError: controller is closed'')"
proof -
  let ?s' = "start (admitted_provider a) (admitted_messages a) (admitted_closure a) s1"
  from start_shape[of "admitted_provider a" "admitted_messages a" "admitted_closure a" s1]
  obtain t where t: "isTerminalEvent t" "closed ?s'"
    "queue ?s' = map TokenEvent (emitted (generation (admitted_provider a) (admitted_messages a))) @ [t]"
    by blast
  show ?thesis
    unfolding POST_admitted[OF assms] using t
    by (simp add: tokenTexts_invocations enqueue_def)
qed

theorem relay_stream_ends_with_one_terminal_witness:
  "fst (admission (exampleEnv completingOpenAI DbOk) (exampleRequest ''gpt-3.5-turbo'')
          (exampleRelay Map.empty)) = Inr (exampleAdmission completingOpenAI DbOk) \<and>
   fst (POST (exampleEnv completingOpenAI DbOk) (exampleRequest ''gpt-3.5-turbo'')
          (exampleRelay Map.empty)) =
     \<lparr>status = 200,
      headers = [(''Content-Type'', ''text/event-stream''), (''Cache-Control'', ''no-cache''),
                 (''Connection'', ''keep-alive'')],
      payload = EventStream [TokenEvent ''Hel'', TokenEvent ''lo'', DoneEvent exampleUsage]\<rparr> \<and>
   butlast (queue (snd (POST (exampleEnv completingOpenAI DbOk) (exampleRequest ''gpt-3.5-turbo'')
                          (exampleRelay Map.empty)))) = [TokenEvent ''Hel'', TokenEvent ''lo''] \<and>
   isTerminalEvent (last (queue (snd (POST (exampleEnv completingOpenAI DbOk)
                                        (exampleRequest ''gpt-3.5-turbo'') (exampleRelay Map.empty))))) \<and>
   closed (snd (POST (exampleEnv completingOpenAI DbOk) (exampleRequest ''gpt-3.5-turbo'')
                  (exampleRelay Map.empty)))"
proof -
  have i: "tokenTexts (invocations (admitted_provider (exampleAdmission completingOpenAI DbOk))
                         (admitted_messages (exampleAdmission completingOpenAI DbOk))) =
             [''Hel'', ''lo'']"
    by code_simp
  have p: "fst (POST (exampleEnv completingOpenAI DbOk) (exampleRequest ''gpt-3.5-turbo'')
                 (exampleRelay Map.empty)) =
     \<lparr>status = 200,
      headers = [(''Content-Type'', ''text/event-stream''), (''Cache-Control'', ''no-cache''),
                 (''Connection'', ''keep-alive'')],
      payload = EventStream [TokenEvent ''Hel'', TokenEvent ''lo'', DoneEvent exampleUsage]\<rparr>"
    by code_simp
  show ?thesis
    using relay_stream_ends_with_one_terminal [OF example_admission, of completingOpenAI DbOk]
      example_admitted [of completingOpenAI DbOk] i p
    by simp
qed

text \<open>
  C4. For an admitted request whose adapter reports \<open>onError\<close>, the event stream is the
  token events relayed so far followed by one \<open>error\<close> event, the stream is closed, no row
  is inserted into the messages table, no conversation is touched, and
  \<open>incrementMessageCount\<close> is not called, so the usage ledger is unchanged.
\<close>

theorem provider_error_aborts_without_bookkeeping:
  assumes "admission env request s = (Inr a, s1)"
      and "OnError e \<in> set (invocations (admitted_provider a) (admitted_messages a))"
  shows "payload (fst (POST env request s)) =
           EventStream
             (map TokenEvent (tokenTexts (invocations (admitted_provider a) (admitted_messages a))) @
              [ErrorEvent ''An internal error occurred while generating the response'']) \<and>
         closed (snd (POST env request s)) \<and>
         messagesTable (snd (POST env request s)) = messagesTable s \<and>
         chatsTouched (snd (POST env request s)) = chatsTouched s \<and>
         usage_logs (snd (POST env request s)) = usage_logs s \<and>
         incrementCalls (snd (POST env request s)) = incrementCalls s"
proof -
  from onError_invoked[OF assms(2)] obtain e' where
    e': "ending (generation (admitted_provider a) (admitted_messages a)) = Inl e'" by blast
  have op: "\<not> closed (streamed s1 (emitted (generation (admitted_provider a) (admitted_messages a))))"
    by simp
  show ?thesis
    unfolding POST_admitted[OF assms(1)] start_failed[OF e'] relay_onError_open[OF op]
    using admission_tables[OF assms(1)]
    by (simp add: tokenTexts_invocations)
qed

theorem provider_error_aborts_without_bookkeeping_witness:
  "fst (admission (exampleEnv failingOpenAI DbOk) (exampleRequest ''gpt-3.5-turbo'')
          (exampleRelay Map.empty)) = Inr (exampleAdmission failingOpenAI DbOk) \<and>
   OnError (Error ''upstream failure'') \<in>
     set (invocations (admitted_provider (exampleAdmission failingOpenAI DbOk))
            (admitted_messages (exampleAdmission failingOpenAI DbOk))) \<and>
   payload (fst (POST (exampleEnv failingOpenAI DbOk) (exampleRequest ''gpt-3.5-turbo'')
                   (exampleRelay Map.empty))) =
     EventStream [TokenEvent ''Hel'', TokenEvent ''lo'',
                  ErrorEvent ''An internal error occurred while generating the response''] \<and>
   closed (snd (POST (exampleEnv failingOpenAI DbOk) (exampleRequest ''gpt-3.5-turbo'')
                  (exampleRelay Map.empty))) \<and>
   messagesTable (snd (POST (exampleEnv failingOpenAI DbOk) (exampleRequest ''gpt-3.5-turbo'')
                         (exampleRelay Map.empty))) = [] \<and>
   incrementCalls (snd (POST (exampleEnv failingOpenAI DbOk) (exampleRequest ''gpt-3.5-turbo'')
                          (exampleRelay Map.empty))) = [] \<and>
   usage_logs (snd (POST (exampleEnv failingOpenAI DbOk) (exampleRequest ''gpt-3.5-turbo'')
                      (exampleRelay Map.empty))) ''user-1'' = None"
proof -
  have i: "invocations (admitted_provider (exampleAdmission failingOpenAI DbOk))
             (admitted_messages (exampleAdmission failingOpenAI DbOk)) =
             [OnToken ''Hel'', OnToken ''lo'', OnError (Error ''upstream failure'')]"
    by code_simp
  have e: "OnError (Error ''upstream failure'') \<in>
     set (invocations (admitted_provider (exampleAdmission failingOpenAI DbOk))
            (admitted_messages (exampleAdmission failingOpenAI DbOk)))"
    unfolding i by simp
  show ?thesis
    using provider_error_aborts_without_bookkeeping [OF example_admission e]
      example_admitted [of failingOpenAI DbOk] e
    by (simp add: i exampleRelay_def)
qed

text \<open>
  C3, as the code has it. For an admitted request with a conversation identifier whose
  generation completes and whose insert into the messages table returns an error: the
  failure is logged on the server, the event stream is the token events followed by the
  \<open>error\<close> event \<open>Failed to persist message\<close> in place of \<open>done\<close>, the stream is
  closed, and \<open>incrementMessageCount\<close> is not called.
\<close>

theorem insert_failure_ends_stream_with_error:
  assumes "admission env request s = (Inr a, s1)"
      and "OnComplete txt u \<in> set (invocations (admitted_provider a) (admitted_messages a))"
      and "chatId (admitted_closure a) = Some chat" and "chat \<noteq> []"
      and "insertResult (storage (admitted_closure a)) = DbError err"
  shows "payload (fst (POST env request s)) =
           EventStream
             (map TokenEvent (tokenTexts (invocations (admitted_provider a) (admitted_messages a))) @
              [ErrorEvent ''Failed to persist message'']) \<and>
         closed (snd (POST env request s)) \<and>
         serverLog (snd (POST env request s)) =
           serverLog s1 @ [''Failed to insert message in onComplete''] \<and>
         messagesTable (snd (POST env request s)) = messagesTable s \<and>
         usage_logs (snd (POST env request s)) = usage_logs s \<and>
         incrementCalls (snd (POST env request s)) = incrementCalls s"
proof -
  from onComplete_invoked[OF assms(2)] have
    u: "ending (generation (admitted_provider a) (admitted_messages a)) = Inr u" by blast
  have op: "\<not> closed (streamed s1 (emitted (generation (admitted_provider a) (admitted_messages a))))"
    by simp
  show ?thesis
    unfolding POST_admitted[OF assms(1)] start_completed[OF u]
      relay_onComplete_insert_error[OF op assms(3,4,5)]
    using admission_tables[OF assms(1)]
    by (simp add: tokenTexts_invocations)
qed

theorem insert_failure_ends_stream_with_error_witness:
  "fst (admission (exampleEnv completingOpenAI (DbError ''insert failed''))
          (exampleRequest ''gpt-3.5-turbo'') (exampleRelay Map.empty)) =
     Inr (exampleAdmission completingOpenAI (DbError ''insert failed'')) \<and>
   OnComplete ''Hello'' exampleUsage \<in>
     set (invocations (admitted_provider (exampleAdmission completingOpenAI (DbError ''insert failed'')))
            (admitted_messages (exampleAdmission completingOpenAI (DbError ''insert failed'')))) \<and>
   chatId (admitted_closure (exampleAdmission completingOpenAI (DbError ''insert failed''))) =
     Some ''123e4567-e89b-12d3-a456-426614174000'' \<and>
   insertResult (storage (admitted_closure (exampleAdmission completingOpenAI (DbError ''insert failed'')))) =
     DbError ''insert failed'' \<and>
   payload (fst (POST (exampleEnv completingOpenAI (DbError ''insert failed''))
                   (exampleRequest ''gpt-3.5-turbo'') (exampleRelay Map.empty))) =
     EventStream [TokenEvent ''Hel'', TokenEvent ''lo'', ErrorEvent ''Failed to persist message''] \<and>
   closed (snd (POST (exampleEnv completingOpenAI (DbError ''insert failed''))
                  (exampleRequest ''gpt-3.5-turbo'') (exampleRelay Map.empty))) \<and>
   messagesTable (snd (POST (exampleEnv completingOpenAI (DbError ''insert failed''))
                         (exampleRequest ''gpt-3.5-turbo'') (exampleRelay Map.empty))) = [] \<and>
   incrementCalls (snd (POST (exampleEnv completingOpenAI (DbError ''insert failed''))
                          (exampleRequest ''gpt-3.5-turbo'') (exampleRelay Map.empty))) = []"
proof -
  let ?A = "exampleAdmission completingOpenAI (DbError ''insert failed'')"
  have i: "invocations (admitted_provider ?A) (admitted_messages ?A) =
             [OnToken ''Hel'', OnToken ''lo'', OnComplete ''Hello'' exampleUsage]"
    by code_simp
  have c: "OnComplete ''Hello'' exampleUsage \<in> set (invocations (admitted_provider ?A) (admitted_messages ?A))"
    unfolding i by simp
  have k: "chatId (admitted_closure ?A) = Some ''123e4567-e89b-12d3-a456-426614174000''"
    by (simp add: exampleAdmission_def)
  have n: "''123e4567-e89b-12d3-a456-426614174000'' \<noteq> []" by simp
  have r: "insertResult (storage (admitted_closure ?A)) = DbError ''insert failed''"
    by (simp add: exampleAdmission_def exampleEnv_def)
  show ?thesis
    using insert_failure_ends_stream_with_error [OF example_admission c k n r]
      example_admitted [of completingOpenAI "DbError ''insert failed''"] c k r
    by (simp add: i exampleRelay_def)
qed

text \<open>
  C3, as stated, at a concrete request: the vendor streams \<open>Hel\<close>, \<open>lo\<close> and completes
  with five tokens, and the insert returns an error. The client receives an \<open>error\<close>
  event and no \<open>done\<close> event, and the usage ledger is not touched; with a successful
  insert the same request ends in \<open>done\<close> and one call of \<open>incrementMessageCount\<close>.
\<close>

theorem insert_failure_sends_error_event:
  "payload (fst (POST (exampleEnv completingOpenAI (DbError ''insert failed''))
                   (exampleRequest ''gpt-3.5-turbo'') (exampleRelay Map.empty))) =
     EventStream [TokenEvent ''Hel'', TokenEvent ''lo'', ErrorEvent ''Failed to persist message''] \<and>
   incrementCalls (snd (POST (exampleEnv completingOpenAI (DbError ''insert failed''))
                          (exampleRequest ''gpt-3.5-turbo'') (exampleRelay Map.empty))) = [] \<and>
   usage_logs (snd (POST (exampleEnv completingOpenAI (DbError ''insert failed''))
                      (exampleRequest ''gpt-3.5-turbo'') (exampleRelay Map.empty))) ''user-1'' = None \<and>
   payload (fst (POST (exampleEnv completingOpenAI DbOk)
                   (exampleRequest ''gpt-3.5-turbo'') (exampleRelay Map.empty))) =
     EventStream [TokenEvent ''Hel'', TokenEvent ''lo'', DoneEvent exampleUsage] \<and>
   incrementCalls (snd (POST (exampleEnv completingOpenAI DbOk)
                          (exampleRequest ''gpt-3.5-turbo'') (exampleRelay Map.empty))) =
     [(''user-1'', 5)]"
  by code_simp

section \<open>Claims about the responses of the guards and of validation\<close>

text \<open>
  A denial by the IP rate guard is a 429 response with a \<open>Retry-After\<close> header, the
  seconds from the handler's later clock reading to the guard's reset time, rounded up. The
  quota guard's decision carries the first instant of the next calendar month as its reset
  time, but a denial by the quota guard is a 429 response on which the handler sets no
  header.
\<close>

lemma ip_denial_sets_retry_after:
  assumes "ipCandidate request = Some ip" and "ip \<noteq> []"
      and "checkIPRateLimit (dateNow (clock env)) ip (ipRequestCounts s) = (ipCheck, counts)"
      and "\<not> allowed ipCheck"
  shows "\<exists>denied. fst (guards env request s) = Inl denied \<and> status denied = 429 \<and>
           headers denied =
             [(''Retry-After'', showInt (ceilSeconds (resetAt ipCheck - retryNow env)))]"
  using assms by (simp add: guards_def)

lemma quota_decision_resets_next_month:
  "resetAt (checkMessageQuota clk tier used) =
     localMidnight clk (fullYear clk + (month clk + 1) div 12) ((month clk + 1) mod 12) 1"
  by (simp add: checkMessageQuota_def getMonthEndTimestamp_def newDate_def Let_def)

lemma quota_denial_sets_no_header:
  assumes "guards env request s = (Inl denied, s1)" and "payload denied = JsonQuotaError m u"
  shows "status denied = 429 \<and> headers denied = []"
  using assms
  by (auto simp: guards_def internalError_def Let_def
           split: option.splits if_splits prod.splits ProfileResult.splits)

text \<open>
  C8. A free-tier user with fifty messages in the current period is denied by the quota
  guard: the response has status 429 and no \<open>Retry-After\<close> header, although the guard's
  decision carries the reset time, the first instant of the next month.
\<close>

theorem quota_denial_without_retry_after:
  "fst (POST (exampleEnv completingOpenAI DbOk) (exampleRequest ''gpt-3.5-turbo'')
        (exampleRelay [''user-1'' \<mapsto> \<lparr>messages_count = 50, tokens_used = 1200\<rparr>])) =
     \<lparr>status = 429, headers = [],
      payload = JsonQuotaError
        (Some ''Monthly message limit reached (50 messages). Upgrade your plan for more.'')
        \<lparr>messagesUsed = 50, tokensUsed = 1200\<rparr>\<rparr> \<and>
   resetAt (checkMessageQuota exampleClock Free 50) = localMidnight exampleClock 2025 0 1"
  by code_simp

lemma guards_status:
  assumes "guards env request s = (Inl denied, s1)"
  shows "status denied \<in> {400, 401, 429, 500}"
  using assms
  by (auto simp: guards_def internalError_def Let_def
           split: option.splits if_splits prod.splits ProfileResult.splits)

text \<open>
  C10, as the code has it. \<open>gemini-2.0-flash\<close> is in the model list of each of the three
  tiers and is not a member of the validated model enumeration. A request naming it is
  never admitted to model authorization or provider construction: validation raises an
  issue for the model, and the response is an error response of the guards or of validation
  (status 400, 401, 429 or 500). When the request passes the guards (client address, IP
  rate guard, session, profile, quota), the response is the 400 validation failure.
\<close>

theorem flash_model_rejected_before_authorization:
  assumes "body request = Some (ChatRequestBody r)" and "raw_model r = ''gemini-2.0-flash''"
  shows "canAccessModel Free ''gemini-2.0-flash'' \<and>
         canAccessModel Pro ''gemini-2.0-flash'' \<and>
         canAccessModel Enterprise ''gemini-2.0-flash'' \<and>
         ''gemini-2.0-flash'' \<notin> set aiModelSchema \<and>
         validateRequest (uuidCheck env) (ChatRequestBody r) = Inl (chatRequestIssues (uuidCheck env) r) \<and>
         InvalidEnumValue ''gemini-2.0-flash'' \<in> set (chatRequestIssues (uuidCheck env) r) \<and>
         (\<exists>rejected. admission env request s = (Inl rejected, snd (POST env request s)) \<and>
                     fst (POST env request s) = rejected \<and>
                     status rejected \<in> {400, 401, 429, 500}) \<and>
         (fst (guards env request s) = Inr (userId, tier) \<longrightarrow>
            fst (POST env request s) =
              \<lparr>status = 400, headers = [],
               payload = JsonValidationError (chatRequestIssues (uuidCheck env) r)\<rparr>)"
proof -
  have tiers: "canAccessModel Free ''gemini-2.0-flash''" "canAccessModel Pro ''gemini-2.0-flash''"
    "canAccessModel Enterprise ''gemini-2.0-flash''"
    by (simp_all add: canAccessModel_def)
  have absent: "''gemini-2.0-flash'' \<notin> set aiModelSchema"
    by (simp add: aiModelSchema_def)
  have issue: "InvalidEnumValue ''gemini-2.0-flash'' \<in> set (chatRequestIssues (uuidCheck env) r)"
    using absent assms(2) by (simp add: chatRequestIssues_def)
  then have ne: "chatRequestIssues (uuidCheck env) r \<noteq> []" by auto
  have v: "validateRequest (uuidCheck env) (ChatRequestBody r) = Inl (chatRequestIssues (uuidCheck env) r)"
    using ne by (simp add: validateRequest_def)
  obtain g sg where g: "guards env request s = (g, sg)" by force
  have adm: "\<exists>rejected. admission env request s = (Inl rejected, snd (POST env request s)) \<and>
                     fst (POST env request s) = rejected \<and>
                     status rejected \<in> {400, 401, 429, 500}"
  proof (cases g)
    case (Inl denied)
    with g guards_status[of env request s denied sg] show ?thesis
      by (simp add: admission_def POST_def)
  next
    case (Inr ut)
    with g v show ?thesis
      by (cases ut) (simp add: admission_def POST_def assms(1))
  qed
  have passed: "fst (guards env request s) = Inr (userId, tier) \<longrightarrow>
            fst (POST env request s) =
              \<lparr>status = 400, headers = [],
               payload = JsonValidationError (chatRequestIssues (uuidCheck env) r)\<rparr>"
    using g v by (auto simp: admission_def POST_def assms(1))
  show ?thesis using tiers absent v issue adm passed by blast
qed

theorem flash_model_rejected_before_authorization_witness:
  "body (exampleRequest ''gemini-2.0-flash'') =
     Some (ChatRequestBody \<lparr>raw_messages = [\<lparr>raw_role = ''user'', raw_content = ''Hi''\<rparr>],
                            raw_model = ''gemini-2.0-flash'',
                            raw_chatId = Some ''123e4567-e89b-12d3-a456-426614174000''\<rparr>) \<and>
   fst (guards (exampleEnv completingOpenAI DbOk) (exampleRequest ''gemini-2.0-flash'')
          (exampleRelay Map.empty)) = Inr (''user-1'', Free) \<and>
   fst (POST (exampleEnv completingOpenAI DbOk) (exampleRequest ''gemini-2.0-flash'')
          (exampleRelay Map.empty)) =
     \<lparr>status = 400, headers = [],
      payload = JsonValidationError [InvalidEnumValue ''gemini-2.0-flash'']\<rparr>"
proof -
  let ?r = "\<lparr>raw_messages = [\<lparr>raw_role = ''user'', raw_content = ''Hi''\<rparr>],
             raw_model = ''gemini-2.0-flash'',
             raw_chatId = Some ''123e4567-e89b-12d3-a456-426614174000''\<rparr>"
  have b: "body (exampleRequest ''gemini-2.0-flash'') = Some (ChatRequestBody ?r)"
    by (simp add: exampleRequest_def)
  have m: "raw_model ?r = ''gemini-2.0-flash''" by simp
  have g: "fst (guards (exampleEnv completingOpenAI DbOk) (exampleRequest ''gemini-2.0-flash'')
                 (exampleRelay Map.empty)) = Inr (''user-1'', Free)"
    by code_simp
  have i: "chatRequestIssues (uuidCheck (exampleEnv completingOpenAI DbOk)) ?r =
             [InvalidEnumValue ''gemini-2.0-flash'']"
    by code_simp
  show ?thesis
    using flash_model_rejected_before_authorization
            [OF b m, of "exampleEnv completingOpenAI DbOk" "exampleRelay Map.empty" "''user-1''" Free]
      b g i
    by simp
qed

text \<open>
  C10, as stated, at a concrete request: the body names \<open>gemini-2.0-flash\<close> and the
  caller has no session. The response is 401, not a 400 validation failure.
\<close>

theorem flash_request_unauthenticated:
  "raw_model \<lparr>raw_messages = [\<lparr>raw_role = ''user'', raw_content = ''Hi''\<rparr>],
              raw_model = ''gemini-2.0-flash'',
              raw_chatId = Some ''123e4567-e89b-12d3-a456-426614174000''\<rparr> = ''gemini-2.0-flash'' \<and>
   body (exampleRequest ''gemini-2.0-flash'') =
     Some (ChatRequestBody \<lparr>raw_messages = [\<lparr>raw_role = ''user'', raw_content = ''Hi''\<rparr>],
                            raw_model = ''gemini-2.0-flash'',
                            raw_chatId = Some ''123e4567-e89b-12d3-a456-426614174000''\<rparr>) \<and>
   fst (POST ((exampleEnv completingOpenAI DbOk)\<lparr>authUser := None\<rparr>)
          (exampleRequest ''gemini-2.0-flash'') (exampleRelay Map.empty)) =
     \<lparr>status = 401, headers = [], payload = JsonError ''Unauthorized''\<rparr>"
  by code_simp

end
